theory Spec2Isabelle
  imports Main "HOL-Library.Sublist"
begin

section \<open>The Venafi Cloud connector (pkg/venafi/cloud/connector.go)\<close>

text \<open>
  The connector drives certificate requests against a remote service. Every function of
  connector.go that talks to the service does so through \<open>c.request\<close>, and reads the
  clock through \<open>time.Now\<close> and \<open>time.Sleep\<close>. The model makes both explicit: a
  \<open>world\<close> answers the calls, and every function threads the list of events it has
  caused so far (its trace). Errors are values of the datatype \<open>error\<close>, one
  constructor for each place where connector.go builds an error.
\<close>

subsection \<open>Resource paths and chain-order tokens\<close>

definition urlResourceZones :: string where
  "urlResourceZones = ''zones''"

definition urlResourceZoneByTag :: string where
  "urlResourceZoneByTag = urlResourceZones @ ''/tag/%s''"

definition urlResourceCertificatePolicies :: string where
  "urlResourceCertificatePolicies = ''certificatepolicies''"

definition urlResourcePoliciesByID :: string where
  "urlResourcePoliciesByID = urlResourceCertificatePolicies @ ''/%s''"

definition urlResourceCertificateRequests :: string where
  "urlResourceCertificateRequests = ''certificaterequests''"

definition urlResourceCertificateStatus :: string where
  "urlResourceCertificateStatus = urlResourceCertificateRequests @ ''/%s''"

definition urlResourceCertificateRetrieve :: string where
  "urlResourceCertificateRetrieve = urlResourceCertificateRequests @ ''/%s/certificate''"

definition urlResourceCertificateSearch :: string where
  "urlResourceCertificateSearch = ''certificatesearch''"

definition urlResourceManagedCertificates :: string where
  "urlResourceManagedCertificates = ''managedcertificates''"

definition urlResourceManagedCertificateById :: string where
  "urlResourceManagedCertificateById = urlResourceManagedCertificates @ ''/%s''"

definition condorChainOptionRootFirst :: string where
  "condorChainOptionRootFirst = ''ROOT_FIRST''"

definition condorChainOptionRootLast :: string where
  "condorChainOptionRootLast = ''EE_FIRST''"

definition StatusOK :: int where
  "StatusOK = 200"

definition StatusConflict :: int where
  "StatusConflict = 409"

subsection \<open>Data\<close>

text \<open>
  The structs of connector.go (\<open>Connector\<close>, \<open>managedCertificate\<close>) are records with
  the fields of the source. The other structs are declared in other files of the
  package or in package \<open>certificate\<close>; they are records with the fields that
  connector.go reads or writes. A field whose name is taken already has a suffix:
  \<open>Thumbprint_rr\<close> is \<open>RenewalRequest.Thumbprint\<close>, \<open>CSR_cr\<close> is
  \<open>certificateRequest.CSR\<close>, \<open>ID_zone\<close> is \<open>zone.ID\<close>. A byte slice is a string, a
  pointer that may be nil an option.
\<close>

text \<open>
  Modelled from the spec: the CSR origin of a request. connector.go names only
  \<open>certificate.ServiceGeneratedCSR\<close>; the spec tells the service-generated origin from
  a CSR the caller supplies or generates.
\<close>

datatype CSrOriginOption = LocalGeneratedCSR | ServiceGeneratedCSR | UserProvidedCSR

text \<open>
  Modelled from the spec: the chain order a caller asks for. connector.go names only
  \<open>certificate.ChainOptionRootFirst\<close> and treats every other value alike (the
  \<open>default\<close> branch); the spec has root-first and root-last order.
\<close>

datatype ChainOption = ChainOptionRootLast | ChainOptionRootFirst | ChainOptionIgnore

text \<open>\<open>certificate.Request\<close>; \<open>Timeout\<close> is a \<open>time.Duration\<close>, in nanoseconds.\<close>

record Request =
  CSR :: string
  CsrOrigin :: CSrOriginOption
  PickupID :: string
  ChainOption :: ChainOption
  FetchPrivateKey :: bool
  Thumbprint :: string
  Timeout :: int

text \<open>\<open>certificate.RenewalRequest\<close>.\<close>

record RenewalRequest =
  CertificateDN :: string
  Thumbprint_rr :: string
  CertificateRequest :: "Request option"

text \<open>\<open>userDetails\<close>: connector.go only tests whether \<open>Company\<close> is nil.\<close>

record userDetails =
  Company :: "string option"

text \<open>
  \<open>Connector\<close>. The field \<open>trust\<close> (a certificate pool) is used by the transport only
  and is left out.
\<close>

record Connector =
  baseURL :: string
  apiKey :: string
  verbose :: bool
  user :: "userDetails option"
  zone :: string

text \<open>The body of a certificate request submission (struct \<open>certificateRequest\<close>).\<close>

record certificateRequest =
  ZoneID :: string
  CSR_cr :: string
  ExistingManagedCertificateId :: string
  ReuseCSR :: bool

text \<open>
  Modelled from the spec: the operator of a search operand. connector.go uses the
  constant \<open>MATCH\<close> only (the spec: an attribute-match search).
\<close>

datatype Operator = MATCH

record Operand =
  Field :: string
  Operator :: Operator
  Value :: string

record Expression =
  Operands :: "Operand list"

record SearchRequest =
  Expression :: "Expression option"

text \<open>A search hit; connector.go reads the id of the request that owns the certificate.\<close>

record Certificate =
  CertificateRequestId :: string

record CertificateSearchResponse =
  Certificates :: "Certificate list"

record certificateStatus =
  Status :: string
  ZoneId :: string
  ManagedCertificateId :: string

record managedCertificate =
  Id :: string
  CompanyId :: string
  LatestCertificateRequestId :: string
  CertificateName :: string

record responseError =
  Code :: int
  Message :: string

text \<open>The acknowledgment of a submission: the list of the requests made.\<close>

record certificateRequestResponseData =
  ID :: string

record certificateRequestResponse =
  CertificateRequests :: "certificateRequestResponseData list"

record zone =
  ID_zone :: string
  DefaultCertificateIdentityPolicy :: string
  DefaultCertificateUsePolicy :: string

text \<open>
  Modelled from the spec: the type tag of a policy fragment. The type
  \<open>CertificatePolicyType\<close> and its constants \<open>certificatePolicyTypeIdentity\<close> and
  \<open>certificatePolicyTypeUse\<close> are declared outside connector.go; the spec has
  identity-type fragments, use-type fragments and fragments of an unknown type.
\<close>

datatype certificatePolicyType =
  certificatePolicyTypeIdentity | certificatePolicyTypeUse | certificatePolicyTypeUnknown string

text \<open>
  \<open>certificatePolicy\<close>, with the fields \<open>getPoliciesByID\<close> copies. The type of a
  key-type entry is declared outside connector.go and is a type parameter.
\<close>

record 'k certificatePolicy =
  CertificatePolicyType :: certificatePolicyType
  SubjectCNRegexes :: "string list"
  SubjectORegexes :: "string list"
  SubjectOURegexes :: "string list"
  SubjectSTRegexes :: "string list"
  SubjectLRegexes :: "string list"
  SubjectCRegexes :: "string list"
  SANRegexes :: "string list"
  KeyTypes :: "'k list"
  KeyReuse :: bool

subsection \<open>Errors\<close>

text \<open>
  One constructor for each error connector.go builds; the message of the source is given
  beside it, and the constructor carries the arguments the message is formatted from.
  \<open>ErrExternal\<close> stands for an error made outside connector.go (by the transport or a
  parser). \<open>PanicIndexOutOfRange\<close> is not a returned error: it is the run-time panic
  of reading \<open>xs[0]\<close> of an empty slice, after which the function returns nothing.
\<close>

datatype error =
    ErrExternal string
  | ErrServiceGeneratedCSR
      \<comment> \<open>service generated CSR is not supported by Saas service\<close>
  | ErrMustBeAuthenticatedToRequest
      \<comment> \<open>Must be autheticated to request a certificate\<close>
  | ErrMustBeAuthenticatedToRetrieve
      \<comment> \<open>Must be autheticated to retieve certificate\<close>
  | ErrMustBeAuthenticatedToReadZone
      \<comment> \<open>Must be autheticated to read the zone configuration\<close>
  | ErrParseStatusResponse error
      \<comment> \<open>failed to parse certificate request status response: %s\<close>
  | ErrUnexpectedStatusCodeWithErrors int "responseError list"
      \<comment> \<open>Unexpected status code on Venafi Cloud certificate search. Status: %d, then
          one line Error Code: %d Error: %s for each response error; the constructor
          carries the status code and the response errors the text is built from\<close>
  | ErrUnexpectedStatusCode int
      \<comment> \<open>Unexpected status code on Venafi Cloud certificate search. Status: %d\<close>
  | ErrPrivateKeyNotSupported
      \<comment> \<open>Failed to retrieve private key from Venafi Cloud service: not supported\<close>
  | ErrFailedToRetrieveCertificate error
      \<comment> \<open>Failed to retrieve certificate: %s\<close>
  | ErrNoCertificateFound string
      \<comment> \<open>No certifiate found using fingerprint %s\<close>
  | ErrMoreThanOneRequestId "string list"
      \<comment> \<open>More than one CertificateRequestId was found with the same Fingerprint: %s\<close>
  | ErrUnableToRetrieve error
      \<comment> \<open>unable to retrieve: %s\<close>
  | ErrIssuanceFailed certificateStatus
      \<comment> \<open>Failed to retrieve certificate. Status: %v\<close>
  | ErrCertificatePending string string
      \<comment> \<open>endpoint.ErrCertificatePending{CertificateID, Status}\<close>
  | ErrRetrieveCertificateTimeout string
      \<comment> \<open>endpoint.ErrRetrieveCertificateTimeout{CertificateID}\<close>
  | ErrRetrievalFailed int string string
      \<comment> \<open>Failed to retrieve certificate. StatusCode: %d -- Status: %s -- Server Data: %s\<close>
  | ErrFailedToCreateRenewal error
      \<comment> \<open>Failed to create renewal request: %s\<close>
  | ErrRenewMoreThanOneRequestId "string list"
      \<comment> \<open>Error: more than one CertificateRequestId was found with the same Fingerprint: %s\<close>
  | ErrRenewalTargetRequired
      \<comment> \<open>failed to create renewal request: CertificateDN or Thumbprint required\<close>
  | ErrCertificateRenewFailed error
      \<comment> \<open>certificate renew failed: %s\<close>
  | ErrManagedCertificateIdEmpty string
      \<comment> \<open>failed to submit renewal request for certificate: ManagedCertificateId is
          empty, certificate status is %s\<close>
  | ErrZoneIdEmpty string
      \<comment> \<open>failed to submit renewal request for certificate: ZoneId is empty,
          certificate status is %s\<close>
  | ErrFailedToRenew error
      \<comment> \<open>failed to renew certificate: %s\<close>
  | ErrNotTheLatest string
      \<comment> \<open>the stale-target error of \<open>RenewCertificate\<close>; it carries the message, as
          \<open>fmt.Errorf\<close> prints it from the format string and the three ids\<close>
  | ErrFailedToRenewCertificate error
      \<comment> \<open>Failed to renew certificate: %s\<close>
  | ErrParseSearchResults error string
      \<comment> \<open>Failed to parse search results: %s, body: %s\<close>
  | PanicIndexOutOfRange

subsection \<open>The world: transport, clock, parsers\<close>

text \<open>
  What a call of \<open>c.request\<close> carries as its data argument.
\<close>

datatype payload =
    NoPayload
  | CertificateRequestPayload certificateRequest
  | SearchRequestPayload SearchRequest

text \<open>
  An event is a call of \<open>c.request\<close> (method, url, data) or a \<open>time.Sleep\<close> (duration
  in nanoseconds).
\<close>

datatype event = Call string string payload | Sleep int

text \<open>
  The functions connector.go calls and does not define are fields of the world:
  the transport \<open>c.request\<close> (it returns status code, status text, body and error),
  \<open>c.getURL\<close>, the response parsers, \<open>json.Unmarshal\<close> at its two target types and
  \<open>newPEMCollectionFromResponse\<close>, whose result type (the PEM collection) is a type
  parameter. The transport and the clock (\<open>time.Now\<close>, in nanoseconds) take the number
  of events that happened before, so the service may answer the same call differently
  later and time may pass. \<open>cancelRequested\<close> is the host's cancellation signal at
  each such instant; connector.go has no parameter, channel or context through which a
  function could read it, and no function of the model does.
\<close>

record ('p, 'k) world =
  transport :: "Connector \<Rightarrow> nat \<Rightarrow> string \<Rightarrow> string \<Rightarrow> payload
                  \<Rightarrow> int \<times> string \<times> string option \<times> error option"
  now :: "nat \<Rightarrow> int"
  cancelRequested :: "nat \<Rightarrow> bool"
  getURL :: "Connector \<Rightarrow> string \<Rightarrow> string"
  unmarshalCertificateStatus :: "string \<Rightarrow> error + certificateStatus"
  unmarshalManagedCertificate :: "string \<Rightarrow> error + managedCertificate"
  parseResponseErrors :: "string \<Rightarrow> error + responseError list"
  parseCertificateRequestResult :: "int \<Rightarrow> string \<Rightarrow> string \<Rightarrow> error + certificateRequestResponse"
  ParseCertificateSearchResponse :: "int \<Rightarrow> string \<Rightarrow> error + CertificateSearchResponse"
  parseCertificatePolicyResult :: "int \<Rightarrow> string \<Rightarrow> string \<Rightarrow> error + 'k certificatePolicy"
  parseZoneConfigurationResult :: "int \<Rightarrow> string \<Rightarrow> string \<Rightarrow> error + zone"
  newPEMCollectionFromResponse :: "string \<Rightarrow> ChainOption \<Rightarrow> error + 'p"

definition request ::
  "('p, 'k) world \<Rightarrow> Connector \<Rightarrow> event list \<Rightarrow> string \<Rightarrow> string \<Rightarrow> payload
     \<Rightarrow> (int \<times> string \<times> string option \<times> error option) \<times> event list" where
  "request w c tr m u d = (transport w c (length tr) m u d, tr @ [Call m u d])"

text \<open>
  The four results of \<open>c.request\<close>. The body is a byte slice and may be nil
  (\<open>None\<close>); \<open>bytes\<close> reads it as the parsers and \<open>string(body)\<close> do, a nil
  slice being empty.
\<close>

definition respCode :: "int \<times> string \<times> string option \<times> error option \<Rightarrow> int" where
  "respCode r = fst r"

definition respStatus :: "int \<times> string \<times> string option \<times> error option \<Rightarrow> string" where
  "respStatus r = fst (snd r)"

definition respBody :: "int \<times> string \<times> string option \<times> error option \<Rightarrow> string option" where
  "respBody r = fst (snd (snd r))"

definition respErr :: "int \<times> string \<times> string option \<times> error option \<Rightarrow> error option" where
  "respErr r = snd (snd (snd r))"

definition bytes :: "string option \<Rightarrow> string" where
  "bytes b = (case b of None \<Rightarrow> [] | Some s \<Rightarrow> s)"

definition Second :: int where
  "Second = 1000000000"

subsection \<open>String functions of the standard library\<close>

text \<open>
  \<open>fmt.Sprintf\<close> with string arguments, for formats whose verbs are \<open>%s\<close> and \<open>%%\<close>:
  a verb with no argument left prints \<open>%!s(MISSING)\<close>, arguments left over are
  reported at the end, a lone \<open>%\<close> at the end prints \<open>%!(NOVERB)\<close>. Other verbs
  are not modelled (they are copied).
\<close>

fun extraArgs :: "string list \<Rightarrow> string" where
  "extraArgs [] = []"
| "extraArgs [a] = ''string='' @ a"
| "extraArgs (a # b # bs) = ''string='' @ a @ '', '' @ extraArgs (b # bs)"

fun Sprintf :: "string \<Rightarrow> string list \<Rightarrow> string" where
  "Sprintf [] [] = []"
| "Sprintf [] (a # as) = ''%!(EXTRA '' @ extraArgs (a # as) @ '')''"
| "Sprintf [c] args =
     (if c = CHR ''%'' then ''%!(NOVERB)'' @ Sprintf [] args else c # Sprintf [] args)"
| "Sprintf (c # d # fs) args =
     (if c = CHR ''%'' \<and> d = CHR ''s'' then
        (case args of
           [] \<Rightarrow> ''%!s(MISSING)'' @ Sprintf fs []
         | a # as \<Rightarrow> a @ Sprintf fs as)
      else if c = CHR ''%'' \<and> d = CHR ''%'' then CHR ''%'' # Sprintf fs args
      else c # Sprintf (d # fs) args)"

text \<open>
  \<open>strings.Replace(s, old, new, -1)\<close>: every non-overlapping occurrence of \<open>old\<close>,
  from the left, is replaced by \<open>new\<close>. With an empty \<open>old\<close>, \<open>new\<close> is put in
  front of the string and after each of its characters (bytes here).
\<close>

function Replace :: "string \<Rightarrow> string \<Rightarrow> string \<Rightarrow> string" where
  "Replace s old new =
     (if old = [] then new @ concat (map (\<lambda>c. c # new) s)
      else if s = [] then []
      else if take (length old) s = old then new @ Replace (drop (length old) s) old new
      else hd s # Replace (tl s) old new)"
  by pat_completeness auto
termination
  by (relation "measure (\<lambda>(s, old, new). length s)") auto

text \<open>
  \<open>strings.ToUpper\<close> on ASCII text: the letters a to z are mapped to A to Z, every
  other byte is kept.
\<close>

definition toUpperByte :: "char \<Rightarrow> char" where
  "toUpperByte c =
     (if (97::nat) \<le> of_char c \<and> of_char c \<le> (122::nat)
      then char_of (of_char c - (32::nat)) else c)"

definition ToUpper :: "string \<Rightarrow> string" where
  "ToUpper s = map toUpperByte s"

subsection \<open>Status lookup, search, managed certificate, zone\<close>

text \<open>
  \<open>getCertificateStatus\<close> does not look at the transport's error: the status code
  decides.
\<close>

definition getCertificateStatus ::
  "('p, 'k) world \<Rightarrow> Connector \<Rightarrow> string \<Rightarrow> event list
     \<Rightarrow> (error + certificateStatus) \<times> event list" where
  "getCertificateStatus w c requestID tr =
     (let url = Sprintf (getURL w c urlResourceCertificateStatus) [requestID];
          (resp, tr1) = request w c tr ''GET'' url NoPayload
      in if respCode resp = StatusOK then
           (case unmarshalCertificateStatus w (bytes (respBody resp)) of
              Inl e \<Rightarrow> (Inl (ErrParseStatusResponse e), tr1)
            | Inr certStatus \<Rightarrow> (Inr certStatus, tr1))
         else
           (case parseResponseErrors w (bytes (respBody resp)) of
              Inr respErrors \<Rightarrow>
                (Inl (ErrUnexpectedStatusCodeWithErrors (respCode resp) respErrors), tr1)
            | Inl e \<Rightarrow> (Inl (ErrUnexpectedStatusCode (respCode resp)), tr1)))"

text \<open>
  \<open>searchCertificates\<close> overwrites the transport's error with the parser's: the parser
  alone decides.
\<close>

definition searchCertificates ::
  "('p, 'k) world \<Rightarrow> Connector \<Rightarrow> SearchRequest \<Rightarrow> event list
     \<Rightarrow> (error + CertificateSearchResponse) \<times> event list" where
  "searchCertificates w c req tr =
     (let url = getURL w c urlResourceCertificateSearch;
          (resp, tr1) = request w c tr ''POST'' url (SearchRequestPayload req)
      in case ParseCertificateSearchResponse w (respCode resp) (bytes (respBody resp)) of
           Inl e \<Rightarrow> (Inl e, tr1)
         | Inr searchResult \<Rightarrow> (Inr searchResult, tr1))"

text \<open>The search request \<open>searchCertificatesByFingerprint\<close> builds from a fingerprint.\<close>

definition fingerprintSearchRequest :: "string \<Rightarrow> SearchRequest" where
  "fingerprintSearchRequest fp =
     (let fp1 = Replace fp '':'' [];
          fp2 = Replace fp1 ''.'' [];
          fp3 = ToUpper fp2
      in \<lparr>Expression = Some \<lparr>Operands =
           [\<lparr>Field = ''fingerprint'', Operator = MATCH, Value = fp3\<rparr>]\<rparr>\<rparr>)"

definition searchCertificatesByFingerprint ::
  "('p, 'k) world \<Rightarrow> Connector \<Rightarrow> string \<Rightarrow> event list
     \<Rightarrow> (error + CertificateSearchResponse) \<times> event list" where
  "searchCertificatesByFingerprint w c fp tr =
     searchCertificates w c (fingerprintSearchRequest fp) tr"

definition getManagedCertificate ::
  "('p, 'k) world \<Rightarrow> Connector \<Rightarrow> string \<Rightarrow> event list
     \<Rightarrow> (error + managedCertificate) \<times> event list" where
  "getManagedCertificate w c managedCertId tr =
     (let url = Sprintf (getURL w c urlResourceManagedCertificateById) [managedCertId];
          (resp, tr1) = request w c tr ''GET'' url NoPayload
      in case respErr resp of
           Some e \<Rightarrow> (Inl e, tr1)
         | None \<Rightarrow>
             if respCode resp = StatusOK then
               (case unmarshalManagedCertificate w (bytes (respBody resp)) of
                  Inl e \<Rightarrow> (Inl (ErrParseSearchResults e (bytes (respBody resp))), tr1)
                | Inr res \<Rightarrow> (Inr res, tr1))
             else if respBody resp \<noteq> None then
               (case parseResponseErrors w (bytes (respBody resp)) of
                  Inr respErrors \<Rightarrow>
                    (Inl (ErrUnexpectedStatusCodeWithErrors (respCode resp) respErrors), tr1)
                | Inl e \<Rightarrow> (Inl (ErrUnexpectedStatusCode (respCode resp)), tr1))
             else (Inl (ErrUnexpectedStatusCode (respCode resp)), tr1))"

definition getZoneByTag ::
  "('p, 'k) world \<Rightarrow> Connector \<Rightarrow> string \<Rightarrow> event list
     \<Rightarrow> (error + zone) \<times> event list" where
  "getZoneByTag w c tag tr =
     (if user c = None then (Inl ErrMustBeAuthenticatedToReadZone, tr)
      else
        (let url = Sprintf (getURL w c urlResourceZoneByTag) [tag];
             (resp, tr1) = request w c tr ''GET'' url NoPayload
         in case respErr resp of
              Some e \<Rightarrow> (Inl e, tr1)
            | None \<Rightarrow>
                (case parseZoneConfigurationResult w (respCode resp) (respStatus resp)
                        (bytes (respBody resp)) of
                   Inl e \<Rightarrow> (Inl e, tr1)
                 | Inr z \<Rightarrow> (Inr z, tr1))))"

text \<open>
  The test \<open>c.user == nil || c.user.Company == nil\<close> of \<open>RequestCertificate\<close>,
  \<open>RetrieveCertificate\<close> and \<open>RenewCertificate\<close>.
\<close>

definition noCompany :: "Connector \<Rightarrow> bool" where
  "noCompany c = (case user c of None \<Rightarrow> True | Some u \<Rightarrow> Company u = None)"

subsection \<open>RequestCertificate\<close>

text \<open>
  The function writes the pickup id into the request it was given, so the request is
  returned too. Reading element 0 of an empty \<open>CertificateRequests\<close> panics.
\<close>

definition RequestCertificate ::
  "('p, 'k) world \<Rightarrow> Connector \<Rightarrow> Request \<Rightarrow> string \<Rightarrow> event list
     \<Rightarrow> (error + string) \<times> Request \<times> event list" where
  "RequestCertificate w c req zoneTag tr =
     (let zoneTag1 = (if zoneTag = [] then zone c else zoneTag)
      in if CsrOrigin req = ServiceGeneratedCSR then (Inl ErrServiceGeneratedCSR, req, tr)
         else
           (let url = getURL w c urlResourceCertificateRequests
            in if noCompany c then (Inl ErrMustBeAuthenticatedToRequest, req, tr)
               else
                 (case getZoneByTag w c zoneTag1 tr of
                    (Inl e, tr1) \<Rightarrow> (Inl e, req, tr1)
                  | (Inr z, tr1) \<Rightarrow>
                      (let (resp, tr2) = request w c tr1 ''POST'' url
                             (CertificateRequestPayload
                                \<lparr>ZoneID = ID_zone z, CSR_cr = CSR req,
                                 ExistingManagedCertificateId = [], ReuseCSR = False\<rparr>)
                       in case respErr resp of
                            Some e \<Rightarrow> (Inl e, req, tr2)
                          | None \<Rightarrow>
                              (case parseCertificateRequestResult w (respCode resp)
                                      (respStatus resp) (bytes (respBody resp)) of
                                 Inl e \<Rightarrow> (Inl e, req, tr2)
                               | Inr cr \<Rightarrow>
                                   (case CertificateRequests cr of
                                      [] \<Rightarrow> (Inl PanicIndexOutOfRange, req, tr2)
                                    | r # rs \<Rightarrow>
                                        (Inr (ID r), req\<lparr>PickupID := ID r\<rparr>, tr2)))))))"


subsection \<open>RetrieveCertificate\<close>

text \<open>
  The loop over the search hits, which \<open>RetrieveCertificate\<close> and \<open>RenewCertificate\<close>
  both contain: it collects every request id, and clears the flag when the id seen last
  is not empty and differs from the current one.
\<close>

fun requestIdLoop ::
  "Certificate list \<Rightarrow> string list \<Rightarrow> bool \<Rightarrow> string \<Rightarrow> string list \<times> bool \<times> string" where
  "requestIdLoop [] reqIds isOnlyOne certificateRequestId =
     (reqIds, isOnlyOne, certificateRequestId)"
| "requestIdLoop (x # xs) reqIds isOnlyOne certificateRequestId =
     requestIdLoop xs (reqIds @ [CertificateRequestId x])
       (if certificateRequestId \<noteq> [] \<and> certificateRequestId \<noteq> CertificateRequestId x
        then False else isOnlyOne)
       (CertificateRequestId x)"

text \<open>
  The first part of \<open>RetrieveCertificate\<close>: with no pickup id and a thumbprint, the
  pickup id is found by a fingerprint search and written into the request.
\<close>

definition RetrieveCertificate_pickup ::
  "('p, 'k) world \<Rightarrow> Connector \<Rightarrow> Request \<Rightarrow> event list
     \<Rightarrow> (error + Request) \<times> event list" where
  "RetrieveCertificate_pickup w c req tr =
     (if PickupID req = [] \<and> Thumbprint req \<noteq> [] then
        (case searchCertificatesByFingerprint w c (Thumbprint req) tr of
           (Inl e, tr1) \<Rightarrow> (Inl (ErrFailedToRetrieveCertificate e), tr1)
         | (Inr searchResult, tr1) \<Rightarrow>
             if length (Certificates searchResult) = 0
             then (Inl (ErrNoCertificateFound (Thumbprint req)), tr1)
             else
               (case requestIdLoop (Certificates searchResult) [] True [] of
                  (reqIds, isOnlyOne, certificateRequestId) \<Rightarrow>
                    if \<not> isOnlyOne then (Inl (ErrMoreThanOneRequestId reqIds), tr1)
                    else (Inr (req\<lparr>PickupID := certificateRequestId\<rparr>), tr1)))
      else (Inr req, tr))"

text \<open>
  The last part of \<open>RetrieveCertificate\<close>, reached by the \<open>break\<close> of the loop: the
  retrieval call. The path is formatted twice, first with the pickup id, then, with the
  query appended, with the chain-order token.
\<close>

definition RetrieveCertificate_fetch ::
  "('p, 'k) world \<Rightarrow> Connector \<Rightarrow> Request \<Rightarrow> event list \<Rightarrow> (error + 'p) \<times> event list" where
  "RetrieveCertificate_fetch w c req tr =
     (let url = getURL w c urlResourceCertificateRetrieve
      in if noCompany c then (Inl ErrMustBeAuthenticatedToRetrieve, tr)
         else
           (let url1 = Sprintf url [PickupID req];
                url2 = url1 @ ''?chainOrder=%s&format=PEM'';
                url3 = (case ChainOption req of
                          ChainOptionRootFirst \<Rightarrow> Sprintf url2 [condorChainOptionRootFirst]
                        | _ \<Rightarrow> Sprintf url2 [condorChainOptionRootLast]);
                (resp, tr1) = request w c tr ''GET'' url3 NoPayload
            in case respErr resp of
                 Some e \<Rightarrow> (Inl e, tr1)
               | None \<Rightarrow>
                   if respCode resp = StatusOK then
                     (case newPEMCollectionFromResponse w (bytes (respBody resp))
                             (ChainOption req) of
                        Inl e \<Rightarrow> (Inl e, tr1)
                      | Inr certificates \<Rightarrow> (Inr certificates, tr1))
                   else if respCode resp = StatusConflict then
                     (Inl (ErrCertificatePending (PickupID req) []), tr1)
                   else
                     (Inl (ErrRetrievalFailed (respCode resp) (respStatus resp)
                             (bytes (respBody resp))), tr1)))"

text \<open>
  The poll loop. It has no bound of its own, so the model counts iterations down from
  a fuel: \<open>None\<close> means that the loop is still running when the fuel is used up.
  \<open>startTime\<close> is the clock value read just before the loop; the clock is read again
  after each status lookup.
\<close>

fun RetrieveCertificate_poll ::
  "nat \<Rightarrow> ('p, 'k) world \<Rightarrow> Connector \<Rightarrow> Request \<Rightarrow> int \<Rightarrow> event list
     \<Rightarrow> ((error + 'p) \<times> event list) option" where
  "RetrieveCertificate_poll 0 w c req startTime tr = None"
| "RetrieveCertificate_poll (Suc fuel) w c req startTime tr =
     (case getCertificateStatus w c (PickupID req) tr of
        (Inl e, tr1) \<Rightarrow> Some (Inl (ErrUnableToRetrieve e), tr1)
      | (Inr st, tr1) \<Rightarrow>
          if Status st = ''ISSUED'' then Some (RetrieveCertificate_fetch w c req tr1)
          else if Status st = ''FAILED'' then Some (Inl (ErrIssuanceFailed st), tr1)
          else if Timeout req = 0
          then Some (Inl (ErrCertificatePending (PickupID req) (Status st)), tr1)
          else if now w (length tr1) > startTime + Timeout req
          then Some (Inl (ErrRetrieveCertificateTimeout (PickupID req)), tr1)
          else RetrieveCertificate_poll fuel w c req startTime (tr1 @ [Sleep (2 * Second)]))"

definition RetrieveCertificate ::
  "nat \<Rightarrow> ('p, 'k) world \<Rightarrow> Connector \<Rightarrow> Request \<Rightarrow> event list
     \<Rightarrow> ((error + 'p) \<times> Request \<times> event list) option" where
  "RetrieveCertificate fuel w c req tr =
     (if FetchPrivateKey req then Some (Inl ErrPrivateKeyNotSupported, req, tr)
      else
        (case RetrieveCertificate_pickup w c req tr of
           (Inl e, tr1) \<Rightarrow> Some (Inl e, req, tr1)
         | (Inr req1, tr1) \<Rightarrow>
             (case RetrieveCertificate_poll fuel w c req1 (now w (length tr1)) tr1 of
                None \<Rightarrow> None
              | Some (r, tr2) \<Rightarrow> Some (r, req1, tr2))))"

subsection \<open>RenewCertificate\<close>

text \<open>The first step: the id of the certificate request to renew.\<close>

definition RenewCertificate_requestId ::
  "('p, 'k) world \<Rightarrow> Connector \<Rightarrow> RenewalRequest \<Rightarrow> event list
     \<Rightarrow> (error + string) \<times> event list" where
  "RenewCertificate_requestId w c renewReq tr =
     (if Thumbprint_rr renewReq \<noteq> [] then
        (case searchCertificatesByFingerprint w c (Thumbprint_rr renewReq) tr of
           (Inl e, tr1) \<Rightarrow> (Inl (ErrFailedToCreateRenewal e), tr1)
         | (Inr searchResult, tr1) \<Rightarrow>
             if length (Certificates searchResult) = 0
             then (Inl (ErrNoCertificateFound (Thumbprint_rr renewReq)), tr1)
             else
               (case requestIdLoop (Certificates searchResult) [] True [] of
                  (reqIds, isOnlyOne, certificateRequestId) \<Rightarrow>
                    if \<not> isOnlyOne then (Inl (ErrRenewMoreThanOneRequestId reqIds), tr1)
                    else (Inr certificateRequestId, tr1)))
      else if CertificateDN renewReq \<noteq> [] then (Inr (CertificateDN renewReq), tr)
      else (Inl ErrRenewalTargetRequired, tr))"

text \<open>The body of the renewal submission (fourth step).\<close>

definition renewalBody :: "RenewalRequest \<Rightarrow> string \<Rightarrow> string \<Rightarrow> certificateRequest" where
  "renewalBody renewReq zoneId managedCertificateId =
     (case CertificateRequest renewReq of
        Some r \<Rightarrow>
          if 0 < length (CSR r)
          then \<lparr>ZoneID = zoneId, CSR_cr = CSR r,
                ExistingManagedCertificateId = managedCertificateId, ReuseCSR = False\<rparr>
          else \<lparr>ZoneID = zoneId, CSR_cr = [],
                ExistingManagedCertificateId = managedCertificateId, ReuseCSR = True\<rparr>
      | None \<Rightarrow>
          \<lparr>ZoneID = zoneId, CSR_cr = [],
           ExistingManagedCertificateId = managedCertificateId, ReuseCSR = True\<rparr>)"

text \<open>
  The format string of the stale-target error (third step): the text made for the
  thumbprint is put into the format string itself, between its literal parts, before
  \<open>fmt.Errorf\<close> formats it with the request id, the managed-certificate id and the
  latest request id.
\<close>

definition notTheLatestFormat :: "string \<Rightarrow> string" where
  "notTheLatestFormat withThumbprint =
     ''Certificate under requestId %s '' @ withThumbprint
     @ ''is not the latest under ManagedCertificateId %s. The latest request is %s. ''
     @ ''This error may happen when revoked certificate is requested to be renewed.''"

definition RenewCertificate ::
  "('p, 'k) world \<Rightarrow> Connector \<Rightarrow> RenewalRequest \<Rightarrow> event list
     \<Rightarrow> (error + string) \<times> event list" where
  "RenewCertificate w c renewReq tr =
     (case RenewCertificate_requestId w c renewReq tr of
        (Inl e, tr1) \<Rightarrow> (Inl e, tr1)
      | (Inr certificateRequestId, tr1) \<Rightarrow>
     (case getCertificateStatus w c certificateRequestId tr1 of
        (Inl e, tr2) \<Rightarrow> (Inl (ErrCertificateRenewFailed e), tr2)
      | (Inr previousRequest, tr2) \<Rightarrow>
     (let zoneId = ZoneId previousRequest;
          managedCertificateId = ManagedCertificateId previousRequest
      in if managedCertificateId = []
         then (Inl (ErrManagedCertificateIdEmpty (Status previousRequest)), tr2)
         else if zoneId = [] then (Inl (ErrZoneIdEmpty (Status previousRequest)), tr2)
         else
     (case getManagedCertificate w c managedCertificateId tr2 of
        (Inl e, tr3) \<Rightarrow> (Inl (ErrFailedToRenew e), tr3)
      | (Inr managedCert, tr3) \<Rightarrow>
          if LatestCertificateRequestId managedCert \<noteq> certificateRequestId then
            (let withThumbprint =
                   (if Thumbprint_rr renewReq \<noteq> []
                    then Sprintf ''with thumbprint %s '' [Thumbprint_rr renewReq] else [])
             in (Inl (ErrNotTheLatest
                        (Sprintf (notTheLatestFormat withThumbprint)
                           [certificateRequestId, managedCertificateId,
                            LatestCertificateRequestId managedCert])), tr3))
          else
            (let url = getURL w c urlResourceCertificateRequests
             in if noCompany c then (Inl ErrMustBeAuthenticatedToRequest, tr3)
                else
                  (let (resp, tr4) = request w c tr3 ''POST'' url
                         (CertificateRequestPayload
                            (renewalBody renewReq zoneId managedCertificateId))
                   in case respErr resp of
                        Some e \<Rightarrow> (Inl e, tr4)
                      | None \<Rightarrow>
                          (case parseCertificateRequestResult w (respCode resp)
                                  (respStatus resp) (bytes (respBody resp)) of
                             Inl e \<Rightarrow> (Inl (ErrFailedToRenewCertificate e), tr4)
                           | Inr cr \<Rightarrow>
                               (case CertificateRequests cr of
                                  [] \<Rightarrow> (Inl PanicIndexOutOfRange, tr4)
                                | r # rs \<Rightarrow> (Inr (ID r), tr4)))))))))"

subsection \<open>getPoliciesByID\<close>

text \<open>
  The switch of the loop body: an identity fragment overwrites the seven regex fields,
  a use fragment the key types and the key-reuse flag, any other fragment nothing.
\<close>

definition mergeFragment ::
  "'k certificatePolicy \<Rightarrow> 'k certificatePolicy \<Rightarrow> 'k certificatePolicy" where
  "mergeFragment policy p =
     (case CertificatePolicyType p of
        certificatePolicyTypeIdentity \<Rightarrow>
          policy\<lparr>SubjectCNRegexes := SubjectCNRegexes p,
                 SubjectORegexes := SubjectORegexes p,
                 SubjectOURegexes := SubjectOURegexes p,
                 SubjectSTRegexes := SubjectSTRegexes p,
                 SubjectLRegexes := SubjectLRegexes p,
                 SubjectCRegexes := SubjectCRegexes p,
                 SANRegexes := SANRegexes p\<rparr>
      | certificatePolicyTypeUse \<Rightarrow>
          policy\<lparr>KeyTypes := KeyTypes p, KeyReuse := KeyReuse p\<rparr>
      | certificatePolicyTypeUnknown t \<Rightarrow> policy)"

text \<open>\<open>new(certificatePolicy)\<close>: every field has its zero value.\<close>

definition newCertificatePolicy :: "'k certificatePolicy" where
  "newCertificatePolicy =
     \<lparr>CertificatePolicyType = certificatePolicyTypeUnknown [],
      SubjectCNRegexes = [], SubjectORegexes = [], SubjectOURegexes = [],
      SubjectSTRegexes = [], SubjectLRegexes = [], SubjectCRegexes = [],
      SANRegexes = [], KeyTypes = [], KeyReuse = False\<rparr>"

text \<open>
  The loop over the ids. The transport's error is overwritten by the parser's, so the
  parser alone decides whether a fragment was fetched.
\<close>

fun getPoliciesByID_loop ::
  "('p, 'k) world \<Rightarrow> Connector \<Rightarrow> string list \<Rightarrow> 'k certificatePolicy \<Rightarrow> event list
     \<Rightarrow> (error + 'k certificatePolicy) \<times> event list" where
  "getPoliciesByID_loop w c [] policy tr = (Inr policy, tr)"
| "getPoliciesByID_loop w c (ident # ids) policy tr =
     (let url = Sprintf (getURL w c urlResourcePoliciesByID) [ident];
          (resp, tr1) = request w c tr ''GET'' url NoPayload
      in case parseCertificatePolicyResult w (respCode resp) (respStatus resp)
                (bytes (respBody resp)) of
           Inl e \<Rightarrow> (Inl e, tr1)
         | Inr p \<Rightarrow> getPoliciesByID_loop w c ids (mergeFragment policy p) tr1)"

definition getPoliciesByID ::
  "('p, 'k) world \<Rightarrow> Connector \<Rightarrow> string list \<Rightarrow> event list
     \<Rightarrow> (error + 'k certificatePolicy) \<times> event list" where
  "getPoliciesByID w c ids tr =
     (if user c = None then (Inl ErrMustBeAuthenticatedToReadZone, tr)
      else getPoliciesByID_loop w c ids newCertificatePolicy tr)"


subsection \<open>Notions used to state the properties\<close>

text \<open>
  A submission is a call of \<open>c.request\<close> whose data is a \<open>certificateRequest\<close>:
  \<open>RequestCertificate\<close> and the fourth step of \<open>RenewCertificate\<close> make the only such
  calls.
\<close>

definition isSubmission :: "event \<Rightarrow> bool" where
  "isSubmission ev = (case ev of Call m u (CertificateRequestPayload d) \<Rightarrow> True | _ \<Rightarrow> False)"

text \<open>
  The normal form of a fingerprint in the words of the specification: every colon and
  every dot deleted, the rest in upper case.
\<close>

definition normalizedFingerprint :: "string \<Rightarrow> string" where
  "normalizedFingerprint fp =
     ToUpper (filter (\<lambda>ch. ch \<noteq> CHR '':'' \<and> ch \<noteq> CHR ''.'') fp)"

text \<open>
  What \<open>getPoliciesByID\<close> is given for a list of ids when the first call is made after
  \<open>n\<close> events: for each id in turn, the parser's verdict on the answer to the call for
  that id.
\<close>

fun fetchedFragments ::
  "('p, 'k) world \<Rightarrow> Connector \<Rightarrow> string list \<Rightarrow> nat \<Rightarrow> (error + 'k certificatePolicy) list" where
  "fetchedFragments w c [] n = []"
| "fetchedFragments w c (ident # ids) n =
     (let resp = transport w c n ''GET'' (Sprintf (getURL w c urlResourcePoliciesByID) [ident])
                   NoPayload
      in parseCertificatePolicyResult w (respCode resp) (respStatus resp) (bytes (respBody resp))
           # fetchedFragments w c ids (Suc n))"

text \<open>
  The merged policy in the words of the specification: the regex sets come from the
  identity-type fragments (the last one, when there are several), the key types and the
  key-reuse flag from the use-type fragments, and a field that no fragment gives is empty.
\<close>

definition identityFragments :: "'k certificatePolicy list \<Rightarrow> 'k certificatePolicy list" where
  "identityFragments ps =
     filter (\<lambda>p. CertificatePolicyType p = certificatePolicyTypeIdentity) ps"

definition useFragments :: "'k certificatePolicy list \<Rightarrow> 'k certificatePolicy list" where
  "useFragments ps = filter (\<lambda>p. CertificatePolicyType p = certificatePolicyTypeUse) ps"

definition mergedPolicy :: "'k certificatePolicy list \<Rightarrow> 'k certificatePolicy" where
  "mergedPolicy ps =
     (let idf = identityFragments ps; usef = useFragments ps
      in \<lparr>CertificatePolicyType = certificatePolicyTypeUnknown [],
          SubjectCNRegexes = (if idf = [] then [] else SubjectCNRegexes (last idf)),
          SubjectORegexes = (if idf = [] then [] else SubjectORegexes (last idf)),
          SubjectOURegexes = (if idf = [] then [] else SubjectOURegexes (last idf)),
          SubjectSTRegexes = (if idf = [] then [] else SubjectSTRegexes (last idf)),
          SubjectLRegexes = (if idf = [] then [] else SubjectLRegexes (last idf)),
          SubjectCRegexes = (if idf = [] then [] else SubjectCRegexes (last idf)),
          SANRegexes = (if idf = [] then [] else SANRegexes (last idf)),
          KeyTypes = (if usef = [] then [] else KeyTypes (last usef)),
          KeyReuse = (if usef = [] then False else KeyReuse (last usef))\<rparr>)"

subsection \<open>A concrete world\<close>

text \<open>
  A small world on which the functions can be run. The service answers the \<open>n\<close>-th
  event with the \<open>n\<close>-th entry of a list; every event takes three seconds; the parsers
  read the body itself as the one datum of interest (the status, the request id, the
  latest request id, the zone id), and a policy body starting with \<open>I\<close> or \<open>U\<close> as an
  identity or a use fragment.
\<close>

definition ok :: "string \<Rightarrow> int \<times> string \<times> string option \<times> error option" where
  "ok b = (200, ''200 OK'', Some b, None)"

definition created :: "string \<Rightarrow> int \<times> string \<times> string option \<times> error option" where
  "created b = (201, ''201 Created'', Some b, None)"

definition exampleWorld ::
  "(int \<times> string \<times> string option \<times> error option) list \<Rightarrow> (string, string) world" where
  "exampleWorld answers =
     \<lparr>transport = (\<lambda>c n m u d. if n < length answers then answers ! n
                      else (0, [], None, Some (ErrExternal ''connection closed''))),
      now = (\<lambda>n. int n * (3 * Second)),
      cancelRequested = (\<lambda>n. False),
      getURL = (\<lambda>c r. baseURL c @ r),
      unmarshalCertificateStatus =
        (\<lambda>b. Inr \<lparr>Status = b, ZoneId = ''Z1'', ManagedCertificateId = ''M1''\<rparr>),
      unmarshalManagedCertificate =
        (\<lambda>b. Inr \<lparr>Id = ''M1'', CompanyId = ''C1'', LatestCertificateRequestId = b,
                  CertificateName = ''cn=a.example.com''\<rparr>),
      parseResponseErrors = (\<lambda>b. Inl (ErrExternal ''no error list'')),
      parseCertificateRequestResult =
        (\<lambda>code st b. if code = 201
           then Inr \<lparr>CertificateRequests = (if b = [] then [] else [\<lparr>ID = b\<rparr>])\<rparr>
           else Inl (ErrExternal ''unexpected status'')),
      ParseCertificateSearchResponse =
        (\<lambda>code b. if code = 200
           then Inr \<lparr>Certificates = (if b = [] then [] else [\<lparr>CertificateRequestId = b\<rparr>])\<rparr>
           else Inl (ErrExternal ''unexpected status'')),
      parseCertificatePolicyResult =
        (\<lambda>code st b. if code = 200 then
             Inr \<lparr>CertificatePolicyType =
                    (if take 1 b = ''I'' then certificatePolicyTypeIdentity
                     else if take 1 b = ''U'' then certificatePolicyTypeUse
                     else certificatePolicyTypeUnknown b),
                  SubjectCNRegexes = [b @ ''-cn''], SubjectORegexes = [b @ ''-o''],
                  SubjectOURegexes = [b @ ''-ou''], SubjectSTRegexes = [b @ ''-st''],
                  SubjectLRegexes = [b @ ''-l''], SubjectCRegexes = [b @ ''-c''],
                  SANRegexes = [b @ ''-san''], KeyTypes = [b @ ''-key''], KeyReuse = True\<rparr>
           else Inl (ErrExternal ''unexpected status'')),
      parseZoneConfigurationResult =
        (\<lambda>code st b. if code = 200
           then Inr \<lparr>ID_zone = b, DefaultCertificateIdentityPolicy = ''P1'',
                     DefaultCertificateUsePolicy = ''P2''\<rparr>
           else Inl (ErrExternal ''unexpected status'')),
      newPEMCollectionFromResponse = (\<lambda>b opt. Inr b)\<rparr>"

text \<open>The same world with a search that finds the certificates of the given request ids.\<close>

definition exampleWorldFinding ::
  "(int \<times> string \<times> string option \<times> error option) list \<Rightarrow> string list
     \<Rightarrow> (string, string) world" where
  "exampleWorldFinding answers ids =
     (exampleWorld answers)
       \<lparr>ParseCertificateSearchResponse :=
          (\<lambda>code b. Inr \<lparr>Certificates = map (\<lambda>i. \<lparr>CertificateRequestId = i\<rparr>) ids\<rparr>)\<rparr>"

text \<open>The same world with the host asking for cancellation at every instant.\<close>

definition exampleWorldCancelled ::
  "(int \<times> string \<times> string option \<times> error option) list \<Rightarrow> (string, string) world" where
  "exampleWorldCancelled answers = (exampleWorld answers)\<lparr>cancelRequested := (\<lambda>n. True)\<rparr>"

definition exampleConnector :: Connector where
  "exampleConnector =
     \<lparr>baseURL = ''https://api.venafi.cloud/v1/'', apiKey = ''k'', verbose = False,
      user = Some \<lparr>Company = Some ''C1''\<rparr>, zone = ''Default''\<rparr>"

definition exampleRequest :: Request where
  "exampleRequest =
     \<lparr>CSR = ''csr'', CsrOrigin = LocalGeneratedCSR, PickupID = ''R1'',
      ChainOption = ChainOptionRootFirst, FetchPrivateKey = False, Thumbprint = [],
      Timeout = 0\<rparr>"

definition exampleRenewal :: RenewalRequest where
  "exampleRenewal =
     \<lparr>CertificateDN = [], Thumbprint_rr = ''aa:bb'', CertificateRequest = None\<rparr>"


section \<open>Properties\<close>

subsection \<open>Auxiliary facts\<close>

lemmas example_defs =
  exampleWorld_def exampleWorldFinding_def exampleWorldCancelled_def exampleConnector_def
  exampleRequest_def exampleRenewal_def ok_def created_def

lemmas response_defs = respCode_def respStatus_def respBody_def respErr_def bytes_def

lemmas constant_defs =
  StatusOK_def StatusConflict_def Second_def urlResourceZones_def urlResourceZoneByTag_def
  urlResourceCertificatePolicies_def urlResourcePoliciesByID_def
  urlResourceCertificateRequests_def urlResourceCertificateStatus_def
  urlResourceCertificateRetrieve_def urlResourceCertificateSearch_def
  urlResourceManagedCertificates_def urlResourceManagedCertificateById_def
  condorChainOptionRootFirst_def condorChainOptionRootLast_def

text \<open>Formatting leaves a prefix without a percent sign as it is.\<close>

lemma Sprintf_no_percent:
  "CHR ''%'' \<notin> set p \<Longrightarrow> Sprintf (p @ f) args = p @ Sprintf f args"
proof (induction p)
  case Nil
  then show ?case by simp
next
  case (Cons a p)
  then have a: "a \<noteq> CHR ''%''" and ih: "Sprintf (p @ f) args = p @ Sprintf f args"
    by auto
  show ?case
  proof (cases "p @ f")
    case Nil
    then show ?thesis using a by (cases args) auto
  next
    case (Cons d fs)
    then show ?thesis using a ih by simp
  qed
qed

text \<open>Each lookup adds exactly one call to the trace.\<close>

lemma getCertificateStatus_trace:
  "getCertificateStatus w c rid tr = (r, tr1) \<Longrightarrow>
   tr1 = tr @ [Call ''GET'' (Sprintf (getURL w c urlResourceCertificateStatus) [rid]) NoPayload]"
  by (auto simp: getCertificateStatus_def request_def Let_def split: if_splits sum.splits)

lemma getManagedCertificate_trace:
  "getManagedCertificate w c i tr = (r, tr1) \<Longrightarrow>
   tr1 = tr @ [Call ''GET'' (Sprintf (getURL w c urlResourceManagedCertificateById) [i])
                 NoPayload]"
  by (auto simp: getManagedCertificate_def request_def Let_def
      split: if_splits sum.splits option.splits)

lemma RetrieveCertificate_fetch_trace:
  "\<exists>evs. snd (RetrieveCertificate_fetch w c req tr) = tr @ evs"
  by (auto simp: RetrieveCertificate_fetch_def request_def Let_def
      split: option.splits sum.splits ChainOption.splits)

text \<open>Whenever the poll loop returns, its trace starts with a status lookup.\<close>

lemma RetrieveCertificate_poll_trace:
  "RetrieveCertificate_poll fuel w c req startTime tr = Some (r, tr') \<Longrightarrow>
   prefix (tr @ [Call ''GET'' (Sprintf (getURL w c urlResourceCertificateStatus) [PickupID req])
                   NoPayload]) tr'"
proof (induction fuel arbitrary: tr)
  case 0
  then show ?case by simp
next
  case (Suc fuel)
  obtain res tr1 where st: "getCertificateStatus w c (PickupID req) tr = (res, tr1)"
    by (cases "getCertificateStatus w c (PickupID req) tr")
  note t1 = getCertificateStatus_trace[OF st]
  show ?case
  proof (cases res)
    case (Inl e)
    with Suc.prems st t1 show ?thesis by auto
  next
    case (Inr s)
    consider (issued) "Status s = ''ISSUED''"
      | (returned) "Status s \<noteq> ''ISSUED''" "tr' = tr1"
      | (continued) "RetrieveCertificate_poll fuel w c req startTime (tr1 @ [Sleep (2 * Second)])
                       = Some (r, tr')"
      using Suc.prems st Inr by (auto split: if_splits)
    then show ?thesis
    proof cases
      case issued
      then have "RetrieveCertificate_fetch w c req tr1 = (r, tr')"
        using Suc.prems st Inr by simp
      with RetrieveCertificate_fetch_trace[of w c req tr1] obtain evs where "tr' = tr1 @ evs"
        by auto
      with t1 show ?thesis by simp
    next
      case returned
      with t1 show ?thesis by simp
    next
      case continued
      from Suc.IH[OF continued] have "prefix (tr1 @ [Sleep (2 * Second)]) tr'"
        by (metis append_prefixD)
      then have "prefix tr1 tr'" by (metis append_prefixD)
      with t1 show ?thesis by simp
    qed
  qed
qed

subsection \<open>The poll loop\<close>

text \<open>
  Claim C1, as stated, at a concrete input: a request by thumbprint with a timeout of
  four seconds. The call starts at time 0; the fingerprint search takes three seconds,
  and the start time of the loop is read after it, at 3 s. The first status lookup gives
  PENDING and ends at 6 s: six seconds have passed since the call started, more than
  the timeout, and yet the loop does not report the timeout (6 s is not past 3 s + 4 s).
  It sleeps, polls again, sees ISSUED and retrieves.
\<close>

theorem timeout_from_call_start_counterexample:
  "now (exampleWorld [ok ''R1'', ok ''PENDING'', ok [], ok ''ISSUED'', ok ''pem'']) 2
     - now (exampleWorld [ok ''R1'', ok ''PENDING'', ok [], ok ''ISSUED'', ok ''pem'']) 0
     > Timeout (exampleRequest\<lparr>PickupID := [], Thumbprint := ''aa:bb'', Timeout := 4 * Second\<rparr>)
   \<and> RetrieveCertificate 2
         (exampleWorld [ok ''R1'', ok ''PENDING'', ok [], ok ''ISSUED'', ok ''pem''])
         exampleConnector
         (exampleRequest\<lparr>PickupID := [], Thumbprint := ''aa:bb'', Timeout := 4 * Second\<rparr>) []
       = Some (Inr ''pem'',
               exampleRequest\<lparr>PickupID := ''R1'', Thumbprint := ''aa:bb'', Timeout := 4 * Second\<rparr>,
               [Call ''POST'' ''https://api.venafi.cloud/v1/certificatesearch''
                  (SearchRequestPayload \<lparr>Expression = Some \<lparr>Operands =
                     [\<lparr>Field = ''fingerprint'', Operator = MATCH, Value = ''AABB''\<rparr>]\<rparr>\<rparr>),
                Call ''GET'' ''https://api.venafi.cloud/v1/certificaterequests/R1'' NoPayload,
                Sleep (2 * Second),
                Call ''GET'' ''https://api.venafi.cloud/v1/certificaterequests/R1'' NoPayload,
                Call ''GET''
                  ''https://api.venafi.cloud/v1/certificaterequests/R1/certificate?chainOrder=ROOT_FIRST&format=PEM''
                  NoPayload])"
  by code_simp

text \<open>
  Claim C1, amended. Let \<open>RetrieveCertificate\<close> be called in the state \<open>tr0\<close> for a
  request that does not ask for the private key, and let its first part give the request
  \<open>req1\<close> in the state \<open>trs\<close>. Then the operation is the poll loop run from \<open>trs\<close> with
  the start time \<open>now w (length trs)\<close>: the clock value read just before the first status
  lookup, which is the time of the call when no fingerprint search is made (then
  \<open>trs = tr0\<close>) and the time after the search otherwise. Take any iteration of that
  loop in which the status lookup succeeds with status REQUESTED or PENDING; \<open>tr\<close> is the
  trace before the iteration and \<open>tr1\<close> the trace after the lookup, which is \<open>tr\<close> and the
  one lookup. If the timeout of the request is zero, the loop returns
  \<open>ErrCertificatePending\<close> with the trace \<open>tr1\<close>: nothing was slept and no retrieval
  call was made; in the first iteration this is the result of \<open>RetrieveCertificate\<close>.
  Otherwise, if the clock is past that start time plus the timeout, the loop returns
  \<open>ErrRetrieveCertificateTimeout\<close>, again with the trace \<open>tr1\<close>. Otherwise it sleeps two
  seconds and goes round again, and whenever it returns after that, its trace continues
  with the sleep and a new status lookup.
\<close>

theorem retrieve_requested_or_pending:
  assumes nokey: "\<not> FetchPrivateKey req"
      and pickup: "RetrieveCertificate_pickup w c req tr0 = (Inr req1, trs)"
      and lookup: "getCertificateStatus w c (PickupID req1) tr = (Inr st, tr1)"
      and status: "Status st = ''REQUESTED'' \<or> Status st = ''PENDING''"
  shows "(\<forall>n. RetrieveCertificate n w c req tr0 =
            (case RetrieveCertificate_poll n w c req1 (now w (length trs)) trs of
               None \<Rightarrow> None | Some (r, tr2) \<Rightarrow> Some (r, req1, tr2)))
     \<and> (PickupID req \<noteq> [] \<or> Thumbprint req = [] \<longrightarrow> trs = tr0 \<and> req1 = req)
     \<and> tr1 = tr @ [Call ''GET''
                       (Sprintf (getURL w c urlResourceCertificateStatus) [PickupID req1])
                       NoPayload]
     \<and> (Timeout req1 = 0 \<longrightarrow>
          RetrieveCertificate_poll (Suc fuel) w c req1 (now w (length trs)) tr =
            Some (Inl (ErrCertificatePending (PickupID req1) (Status st)), tr1))
     \<and> (Timeout req1 = 0 \<and> tr = trs \<longrightarrow>
          RetrieveCertificate (Suc fuel) w c req tr0 =
            Some (Inl (ErrCertificatePending (PickupID req1) (Status st)), req1, tr1))
     \<and> (Timeout req1 \<noteq> 0 \<and> now w (length tr1) > now w (length trs) + Timeout req1 \<longrightarrow>
          RetrieveCertificate_poll (Suc fuel) w c req1 (now w (length trs)) tr =
            Some (Inl (ErrRetrieveCertificateTimeout (PickupID req1)), tr1))
     \<and> (Timeout req1 \<noteq> 0 \<and> \<not> now w (length tr1) > now w (length trs) + Timeout req1 \<longrightarrow>
          RetrieveCertificate_poll (Suc fuel) w c req1 (now w (length trs)) tr =
            RetrieveCertificate_poll fuel w c req1 (now w (length trs))
              (tr1 @ [Sleep (2 * Second)])
          \<and> (\<forall>r tr'. RetrieveCertificate_poll (Suc fuel) w c req1 (now w (length trs)) tr
                        = Some (r, tr')
                \<longrightarrow> prefix (tr1 @ [Sleep (2 * Second),
                              Call ''GET''
                                (Sprintf (getURL w c urlResourceCertificateStatus)
                                   [PickupID req1]) NoPayload]) tr'))"
proof -
  let ?start = "now w (length trs)"
  have run: "\<forall>n. RetrieveCertificate n w c req tr0 =
            (case RetrieveCertificate_poll n w c req1 ?start trs of
               None \<Rightarrow> None | Some (r, tr2) \<Rightarrow> Some (r, req1, tr2))"
    using nokey pickup by (simp add: RetrieveCertificate_def)
  have same: "PickupID req \<noteq> [] \<or> Thumbprint req = [] \<longrightarrow> trs = tr0 \<and> req1 = req"
    using pickup by (auto simp: RetrieveCertificate_pickup_def)
  have t1: "tr1 = tr @ [Call ''GET''
                       (Sprintf (getURL w c urlResourceCertificateStatus) [PickupID req1])
                       NoPayload]"
    using getCertificateStatus_trace[OF lookup] .
  have zero: "Timeout req1 = 0 \<longrightarrow>
          RetrieveCertificate_poll (Suc fuel) w c req1 ?start tr =
            Some (Inl (ErrCertificatePending (PickupID req1) (Status st)), tr1)"
    using lookup status by auto
  have first: "Timeout req1 = 0 \<and> tr = trs \<longrightarrow>
          RetrieveCertificate (Suc fuel) w c req tr0 =
            Some (Inl (ErrCertificatePending (PickupID req1) (Status st)), req1, tr1)"
    using zero run by (auto simp del: RetrieveCertificate_poll.simps)
  have late: "Timeout req1 \<noteq> 0 \<and> now w (length tr1) > ?start + Timeout req1 \<longrightarrow>
          RetrieveCertificate_poll (Suc fuel) w c req1 ?start tr =
            Some (Inl (ErrRetrieveCertificateTimeout (PickupID req1)), tr1)"
    using lookup status by auto
  have again: "Timeout req1 \<noteq> 0 \<and> \<not> now w (length tr1) > ?start + Timeout req1 \<longrightarrow>
          RetrieveCertificate_poll (Suc fuel) w c req1 ?start tr =
            RetrieveCertificate_poll fuel w c req1 ?start (tr1 @ [Sleep (2 * Second)])"
    using lookup status by auto
  have after: "\<forall>r tr'. RetrieveCertificate_poll fuel w c req1 ?start
                  (tr1 @ [Sleep (2 * Second)]) = Some (r, tr')
                \<longrightarrow> prefix (tr1 @ [Sleep (2 * Second),
                              Call ''GET''
                                (Sprintf (getURL w c urlResourceCertificateStatus)
                                   [PickupID req1]) NoPayload]) tr'"
    using RetrieveCertificate_poll_trace[of fuel w c req1 ?start "tr1 @ [Sleep (2 * Second)]"]
    by simp
  show ?thesis using run same t1 zero first late again after by presburger
qed

text \<open>
  Three runs in the concrete world, the pickup id being R1 (no search is made, so the
  start time is the time of the call, 0). With timeout zero and the status PENDING
  \<open>RetrieveCertificate\<close> returns the pending error after the first poll. With a timeout
  of one second and the status REQUESTED, the clock (three seconds after the lookup) is
  past the timeout: the timeout error, and the trace is the one lookup. With a timeout of
  ten seconds the loop sleeps and goes round again.
\<close>

theorem retrieve_requested_or_pending_witness:
  "RetrieveCertificate 1 (exampleWorld [ok ''PENDING'']) exampleConnector exampleRequest []
     = Some (Inl (ErrCertificatePending ''R1'' ''PENDING''), exampleRequest,
             [Call ''GET'' ''https://api.venafi.cloud/v1/certificaterequests/R1'' NoPayload])
   \<and> RetrieveCertificate_poll 1 (exampleWorld [ok ''REQUESTED'']) exampleConnector
       (exampleRequest\<lparr>Timeout := Second\<rparr>) 0 []
     = Some (Inl (ErrRetrieveCertificateTimeout ''R1''),
             [Call ''GET'' ''https://api.venafi.cloud/v1/certificaterequests/R1'' NoPayload])
   \<and> RetrieveCertificate_poll 2 (exampleWorld [ok ''PENDING'', ok [], ok ''ISSUED'', ok ''pem''])
       exampleConnector (exampleRequest\<lparr>Timeout := 10 * Second\<rparr>) 0 []
     = RetrieveCertificate_poll 1 (exampleWorld [ok ''PENDING'', ok [], ok ''ISSUED'', ok ''pem''])
         exampleConnector (exampleRequest\<lparr>Timeout := 10 * Second\<rparr>) 0
         [Call ''GET'' ''https://api.venafi.cloud/v1/certificaterequests/R1'' NoPayload,
          Sleep (2 * Second)]"
proof -
  let ?tr1 = "[Call ''GET'' ''https://api.venafi.cloud/v1/certificaterequests/R1'' NoPayload]"
  let ?st = "\<lambda>s. \<lparr>Status = s, ZoneId = ''Z1'', ManagedCertificateId = ''M1''\<rparr>"
  let ?w1 = "exampleWorld [ok ''PENDING'']"
  let ?w2 = "exampleWorld [ok ''REQUESTED'']"
  let ?w3 = "exampleWorld [ok ''PENDING'', ok [], ok ''ISSUED'', ok ''pem'']"
  let ?r2 = "exampleRequest\<lparr>Timeout := Second\<rparr>"
  let ?r3 = "exampleRequest\<lparr>Timeout := 10 * Second\<rparr>"
  have k: "\<not> FetchPrivateKey exampleRequest" "\<not> FetchPrivateKey ?r2" "\<not> FetchPrivateKey ?r3"
    by (simp_all add: exampleRequest_def)
  have p1: "RetrieveCertificate_pickup ?w1 exampleConnector exampleRequest []
            = (Inr exampleRequest, [])"
    by (simp add: RetrieveCertificate_pickup_def exampleRequest_def)
  have p2: "RetrieveCertificate_pickup ?w2 exampleConnector ?r2 [] = (Inr ?r2, [])"
    by (simp add: RetrieveCertificate_pickup_def exampleRequest_def)
  have p3: "RetrieveCertificate_pickup ?w3 exampleConnector ?r3 [] = (Inr ?r3, [])"
    by (simp add: RetrieveCertificate_pickup_def exampleRequest_def)
  have a: "getCertificateStatus ?w1 exampleConnector (PickupID exampleRequest) []
           = (Inr (?st ''PENDING''), ?tr1)"
    by (simp add: getCertificateStatus_def request_def example_defs response_defs constant_defs)
  have b: "getCertificateStatus ?w2 exampleConnector (PickupID ?r2) []
           = (Inr (?st ''REQUESTED''), ?tr1)"
    by (simp add: getCertificateStatus_def request_def example_defs response_defs constant_defs)
  have c: "getCertificateStatus ?w3 exampleConnector (PickupID ?r3) []
           = (Inr (?st ''PENDING''), ?tr1)"
    by (simp add: getCertificateStatus_def request_def example_defs response_defs constant_defs)
  have s: "Status (?st ''PENDING'') = ''REQUESTED'' \<or> Status (?st ''PENDING'') = ''PENDING''"
          "Status (?st ''REQUESTED'') = ''REQUESTED'' \<or> Status (?st ''REQUESTED'') = ''PENDING''"
    by simp_all
  have t: "Timeout exampleRequest = 0" "Timeout ?r2 \<noteq> 0" "Timeout ?r3 \<noteq> 0"
    by (simp_all add: exampleRequest_def Second_def)
  have z: "now ?w2 (length ([] :: event list)) = 0" "now ?w3 (length ([] :: event list)) = 0"
    by (simp_all add: exampleWorld_def)
  have n: "now ?w2 (length ?tr1) > now ?w2 (length ([] :: event list)) + Timeout ?r2"
          "\<not> now ?w3 (length ?tr1) > now ?w3 (length ([] :: event list)) + Timeout ?r3"
    by (simp_all add: exampleWorld_def exampleRequest_def Second_def)
  have p: "PickupID exampleRequest = ''R1''" "PickupID ?r2 = ''R1''"
          "Status (?st ''PENDING'') = ''PENDING''"
    by (simp_all add: exampleRequest_def)
  have r1: "RetrieveCertificate (Suc 0) ?w1 exampleConnector exampleRequest []
            = Some (Inl (ErrCertificatePending (PickupID exampleRequest)
                           (Status (?st ''PENDING''))), exampleRequest, ?tr1)"
    using retrieve_requested_or_pending[OF k(1) p1 a s(1), of 0] t(1) by blast
  have r2: "RetrieveCertificate_poll (Suc 0) ?w2 exampleConnector ?r2
              (now ?w2 (length ([] :: event list))) []
            = Some (Inl (ErrRetrieveCertificateTimeout (PickupID ?r2)), ?tr1)"
    using retrieve_requested_or_pending[OF k(2) p2 b s(2), of 0] t(2) n(1) by blast
  have r3: "RetrieveCertificate_poll (Suc 1) ?w3 exampleConnector ?r3
              (now ?w3 (length ([] :: event list))) []
            = RetrieveCertificate_poll 1 ?w3 exampleConnector ?r3
                (now ?w3 (length ([] :: event list))) (?tr1 @ [Sleep (2 * Second)])"
    using retrieve_requested_or_pending[OF k(3) p3 c s(1), of 1] t(3) n(2) by blast
  have one: "(1::nat) = Suc 0" and two: "(2::nat) = Suc 1" by simp_all
  show ?thesis
    using r1 r2 r3 unfolding p z one[symmetric] two[symmetric] by simp
qed

text \<open>
  Claim C2. In any iteration of the poll loop in which the status lookup succeeds with
  status FAILED, the operation returns the issuance-failed error, which carries the
  status record. The trace it returns is the trace before the iteration and the one
  status lookup: no sleep, no further lookup, no retrieval call.
\<close>

theorem poll_failed:
  assumes "getCertificateStatus w c (PickupID req) tr = (Inr st, tr1)"
      and "Status st = ''FAILED''"
  shows "RetrieveCertificate_poll (Suc fuel) w c req startTime tr =
            Some (Inl (ErrIssuanceFailed st), tr1)
     \<and> tr1 = tr @ [Call ''GET''
                       (Sprintf (getURL w c urlResourceCertificateStatus) [PickupID req])
                       NoPayload]"
  using assms getCertificateStatus_trace[OF assms(1)] by auto

theorem poll_failed_witness:
  "RetrieveCertificate_poll 3 (exampleWorld [ok ''FAILED'', ok ''ISSUED'', ok ''pem''])
       exampleConnector (exampleRequest\<lparr>Timeout := 10 * Second\<rparr>) 0 []
     = Some (Inl (ErrIssuanceFailed
                    \<lparr>Status = ''FAILED'', ZoneId = ''Z1'', ManagedCertificateId = ''M1''\<rparr>),
             [Call ''GET'' ''https://api.venafi.cloud/v1/certificaterequests/R1'' NoPayload])"
proof -
  have a: "getCertificateStatus (exampleWorld [ok ''FAILED'', ok ''ISSUED'', ok ''pem''])
             exampleConnector (PickupID (exampleRequest\<lparr>Timeout := 10 * Second\<rparr>)) []
           = (Inr \<lparr>Status = ''FAILED'', ZoneId = ''Z1'', ManagedCertificateId = ''M1''\<rparr>,
              [Call ''GET'' ''https://api.venafi.cloud/v1/certificaterequests/R1'' NoPayload])"
    by (simp add: getCertificateStatus_def request_def example_defs response_defs constant_defs)
  show ?thesis using poll_failed[OF a, of 2 0] by (simp add: eval_nat_numeral)
qed


subsection \<open>The retrieval call\<close>

text \<open>
  Claim C7 at a concrete input: the status is ISSUED, root-first order is asked for, and
  the pickup id is the two characters \<open>%s\<close>. The retrieval call is made, but its path
  does not carry the \<open>chainOrder\<close> parameter the claim says: the path is formatted a
  second time after the pickup id has been put in, so the chain-order token lands where
  the pickup id was, and the \<open>chainOrder\<close> parameter is \<open>%!s(MISSING)\<close>, not
  \<open>ROOT_FIRST\<close>.
\<close>

theorem retrieval_url_formatted_twice:
  "RetrieveCertificate 1 (exampleWorld [ok ''ISSUED'', ok ''pem'']) exampleConnector
     (exampleRequest\<lparr>PickupID := ''%s''\<rparr>) []
   = Some (Inr ''pem'', exampleRequest\<lparr>PickupID := ''%s''\<rparr>,
       [Call ''GET'' ''https://api.venafi.cloud/v1/certificaterequests/%s'' NoPayload,
        Call ''GET''
          ''https://api.venafi.cloud/v1/certificaterequests/ROOT_FIRST/certificate?chainOrder=%!s(MISSING)&format=PEM''
          NoPayload])"
  by (simp add: RetrieveCertificate_def RetrieveCertificate_pickup_def
      RetrieveCertificate_fetch_def getCertificateStatus_def request_def noCompany_def Let_def
      example_defs response_defs constant_defs)

text \<open>
  What the retrieval call does when the path formatted with the pickup id holds no
  percent sign. Let the poll loop observe ISSUED and the connector be authenticated.
  Then the retrieval call is a GET of that path followed by
  \<open>?chainOrder=ROOT_FIRST&format=PEM\<close> when the request asks for root-first order and by
  \<open>?chainOrder=EE_FIRST&format=PEM\<close> otherwise, and it is the only event after the status
  lookup. When the transport delivers an answer without an error of its own: status 200
  gives what \<open>newPEMCollectionFromResponse\<close> makes of the body and the request's chain
  option, status 409 gives \<open>ErrCertificatePending\<close> (nothing is retried), and any other
  status gives the retrieval-failed error with the status code and the status text.
\<close>

lemma retrieval_call:
  fixes w :: "('p, 'k) world" and c :: Connector and req :: Request
  defines "path \<equiv> Sprintf (getURL w c urlResourceCertificateRetrieve) [PickupID req]"
  defines "url \<equiv> path @ ''?chainOrder=''
       @ (if ChainOption req = ChainOptionRootFirst then ''ROOT_FIRST'' else ''EE_FIRST'')
       @ ''&format=PEM''"
  assumes st: "getCertificateStatus w c (PickupID req) tr = (Inr st, tr1)"
      and issued: "Status st = ''ISSUED''"
      and auth: "\<not> noCompany c"
      and np: "CHR ''%'' \<notin> set path"
      and resp: "transport w c (length tr1) ''GET'' url NoPayload = (code, status, body, None)"
  shows "RetrieveCertificate_poll (Suc fuel) w c req startTime tr =
           Some (if code = 200 then newPEMCollectionFromResponse w (bytes body) (ChainOption req)
                 else if code = 409 then Inl (ErrCertificatePending (PickupID req) [])
                 else Inl (ErrRetrievalFailed code status (bytes body)),
                 tr1 @ [Call ''GET'' url NoPayload])"
proof -
  have u: "(case ChainOption req of
              ChainOptionRootFirst \<Rightarrow>
                Sprintf (path @ ''?chainOrder=%s&format=PEM'') [condorChainOptionRootFirst]
            | _ \<Rightarrow> Sprintf (path @ ''?chainOrder=%s&format=PEM'') [condorChainOptionRootLast])
           = url"
    using np by (simp add: Sprintf_no_percent url_def condorChainOptionRootFirst_def
        condorChainOptionRootLast_def split: ChainOption.splits)
  have "RetrieveCertificate_fetch w c req tr1 =
          (if code = 200 then newPEMCollectionFromResponse w (bytes body) (ChainOption req)
           else if code = 409 then Inl (ErrCertificatePending (PickupID req) [])
           else Inl (ErrRetrievalFailed code status (bytes body)),
           tr1 @ [Call ''GET'' url NoPayload])"
    unfolding RetrieveCertificate_fetch_def Let_def request_def u[unfolded path_def]
    using auth resp
    by (simp add: respErr_def respCode_def respBody_def respStatus_def StatusOK_def
        StatusConflict_def split: sum.splits)
  then show ?thesis using st issued by simp
qed

text \<open>
  Two runs in the concrete world with pickup id R1: root-first order and status 200,
  then leaf-first order and status 409.
\<close>

lemma retrieval_call_example:
  "RetrieveCertificate_poll (Suc 0) (exampleWorld [ok ''ISSUED'', ok ''pem'']) exampleConnector
     exampleRequest 0 []
   = Some (Inr ''pem'',
       [Call ''GET'' ''https://api.venafi.cloud/v1/certificaterequests/R1'' NoPayload,
        Call ''GET''
          ''https://api.venafi.cloud/v1/certificaterequests/R1/certificate?chainOrder=ROOT_FIRST&format=PEM''
          NoPayload])
   \<and> RetrieveCertificate_poll (Suc 0)
       (exampleWorld [ok ''ISSUED'', (409, ''409 Conflict'', Some [], None)]) exampleConnector
       (exampleRequest\<lparr>ChainOption := ChainOptionRootLast\<rparr>) 0 []
   = Some (Inl (ErrCertificatePending ''R1'' []),
       [Call ''GET'' ''https://api.venafi.cloud/v1/certificaterequests/R1'' NoPayload,
        Call ''GET''
          ''https://api.venafi.cloud/v1/certificaterequests/R1/certificate?chainOrder=EE_FIRST&format=PEM''
          NoPayload])"
proof -
  let ?w1 = "exampleWorld [ok ''ISSUED'', ok ''pem'']"
  let ?w2 = "exampleWorld [ok ''ISSUED'', (409, ''409 Conflict'', Some [], None)]"
  let ?r2 = "exampleRequest\<lparr>ChainOption := ChainOptionRootLast\<rparr>"
  let ?st = "\<lparr>Status = ''ISSUED'', ZoneId = ''Z1'', ManagedCertificateId = ''M1''\<rparr>"
  let ?tr1 = "[Call ''GET'' ''https://api.venafi.cloud/v1/certificaterequests/R1'' NoPayload]"
  have a1: "getCertificateStatus ?w1 exampleConnector (PickupID exampleRequest) [] = (Inr ?st, ?tr1)"
    by (simp add: getCertificateStatus_def request_def example_defs response_defs constant_defs)
  have a2: "getCertificateStatus ?w2 exampleConnector (PickupID ?r2) [] = (Inr ?st, ?tr1)"
    by (simp add: getCertificateStatus_def request_def example_defs response_defs constant_defs)
  have i: "Status ?st = ''ISSUED''" by simp
  have au: "\<not> noCompany exampleConnector" by (simp add: noCompany_def exampleConnector_def)
  have p1: "Sprintf (getURL ?w1 exampleConnector urlResourceCertificateRetrieve)
              [PickupID exampleRequest]
            = ''https://api.venafi.cloud/v1/certificaterequests/R1/certificate''"
    by (simp add: example_defs constant_defs)
  have p2: "Sprintf (getURL ?w2 exampleConnector urlResourceCertificateRetrieve) [PickupID ?r2]
            = ''https://api.venafi.cloud/v1/certificaterequests/R1/certificate''"
    by (simp add: example_defs constant_defs)
  have n1: "CHR ''%'' \<notin> set (Sprintf (getURL ?w1 exampleConnector urlResourceCertificateRetrieve)
              [PickupID exampleRequest])"
    unfolding p1 by simp
  have n2: "CHR ''%'' \<notin> set (Sprintf (getURL ?w2 exampleConnector urlResourceCertificateRetrieve)
              [PickupID ?r2])"
    unfolding p2 by simp
  have t1: "transport ?w1 exampleConnector (length ?tr1) ''GET''
              (Sprintf (getURL ?w1 exampleConnector urlResourceCertificateRetrieve)
                 [PickupID exampleRequest] @ ''?chainOrder=''
               @ (if ChainOption exampleRequest = ChainOptionRootFirst
                  then ''ROOT_FIRST'' else ''EE_FIRST'') @ ''&format=PEM'') NoPayload
            = (200, ''200 OK'', Some ''pem'', None)"
    by (simp add: exampleWorld_def ok_def)
  have t2: "transport ?w2 exampleConnector (length ?tr1) ''GET''
              (Sprintf (getURL ?w2 exampleConnector urlResourceCertificateRetrieve)
                 [PickupID ?r2] @ ''?chainOrder=''
               @ (if ChainOption ?r2 = ChainOptionRootFirst
                  then ''ROOT_FIRST'' else ''EE_FIRST'') @ ''&format=PEM'') NoPayload
            = (409, ''409 Conflict'', Some [], None)"
    by (simp add: exampleWorld_def ok_def)
  have e: "newPEMCollectionFromResponse ?w1 (bytes (Some ''pem'')) (ChainOption exampleRequest)
           = Inr ''pem''"
          "ChainOption exampleRequest = ChainOptionRootFirst"
          "ChainOption ?r2 \<noteq> ChainOptionRootFirst" "PickupID ?r2 = ''R1''"
    by (simp_all add: exampleWorld_def exampleRequest_def bytes_def)
  show ?thesis
    using retrieval_call[OF a1 i au n1 t1, of 0 0] retrieval_call[OF a2 i au n2 t2, of 0 0]
    by (simp del: RetrieveCertificate_poll.simps add: example_defs constant_defs response_defs)
qed


subsection \<open>Cancellation\<close>

text \<open>
  Claim C9, as stated, at a concrete input: the host asks for cancellation at every
  instant, in particular at the top of the first iteration (no event yet) and at the top
  of the second (two events), the status stays PENDING and the timeout is five seconds.
  The loop sleeps, polls again and reports the timeout: the signal does not end the wait
  and no cancellation is reported.
\<close>

theorem cancellation_counterexample:
  "cancelRequested (exampleWorldCancelled [ok ''PENDING'', ok [], ok ''PENDING'']) 0
   \<and> cancelRequested (exampleWorldCancelled [ok ''PENDING'', ok [], ok ''PENDING'']) 2
   \<and> RetrieveCertificate 2 (exampleWorldCancelled [ok ''PENDING'', ok [], ok ''PENDING''])
         exampleConnector (exampleRequest\<lparr>Timeout := 5 * Second\<rparr>) []
       = Some (Inl (ErrRetrieveCertificateTimeout ''R1''),
               exampleRequest\<lparr>Timeout := 5 * Second\<rparr>,
               [Call ''GET'' ''https://api.venafi.cloud/v1/certificaterequests/R1'' NoPayload,
                Sleep (2 * Second),
                Call ''GET'' ''https://api.venafi.cloud/v1/certificaterequests/R1'' NoPayload])"
  by (simp add: RetrieveCertificate_def RetrieveCertificate_pickup_def
      getCertificateStatus_def request_def Let_def eval_nat_numeral
      example_defs response_defs constant_defs)

lemma getCertificateStatus_cancel [simp]:
  "getCertificateStatus (w\<lparr>cancelRequested := s\<rparr>) = getCertificateStatus w"
  by (intro ext) (simp add: getCertificateStatus_def request_def Let_def)

lemma RetrieveCertificate_fetch_cancel [simp]:
  "RetrieveCertificate_fetch (w\<lparr>cancelRequested := s\<rparr>) = RetrieveCertificate_fetch w"
  by (intro ext)
     (simp add: RetrieveCertificate_fetch_def request_def Let_def split: option.splits sum.splits)

lemma RetrieveCertificate_pickup_cancel [simp]:
  "RetrieveCertificate_pickup (w\<lparr>cancelRequested := s\<rparr>) = RetrieveCertificate_pickup w"
  by (intro ext)
     (simp add: RetrieveCertificate_pickup_def searchCertificatesByFingerprint_def
        searchCertificates_def request_def Let_def)

lemma RetrieveCertificate_poll_cancel [simp]:
  "RetrieveCertificate_poll fuel (w\<lparr>cancelRequested := s\<rparr>) c req startTime tr =
   RetrieveCertificate_poll fuel w c req startTime tr"
  by (induction fuel arbitrary: tr) (auto split: sum.splits prod.splits)

text \<open>Whenever the poll loop returns, one of its five exits was taken.\<close>

lemma RetrieveCertificate_poll_exits:
  "RetrieveCertificate_poll fuel w c req startTime tr = Some (r, tr') \<Longrightarrow>
   \<exists>tr0 res tr1. getCertificateStatus w c (PickupID req) tr0 = (res, tr1) \<and>
     ((\<exists>e. res = Inl e \<and> r = Inl (ErrUnableToRetrieve e) \<and> tr' = tr1)
      \<or> (\<exists>st. res = Inr st \<and> Status st = ''ISSUED''
                \<and> (r, tr') = RetrieveCertificate_fetch w c req tr1)
      \<or> (\<exists>st. res = Inr st \<and> Status st = ''FAILED''
                \<and> r = Inl (ErrIssuanceFailed st) \<and> tr' = tr1)
      \<or> (\<exists>st. res = Inr st \<and> Status st \<noteq> ''ISSUED'' \<and> Status st \<noteq> ''FAILED'' \<and> Timeout req = 0
                \<and> r = Inl (ErrCertificatePending (PickupID req) (Status st)) \<and> tr' = tr1)
      \<or> (\<exists>st. res = Inr st \<and> Status st \<noteq> ''ISSUED'' \<and> Status st \<noteq> ''FAILED''
                \<and> Timeout req \<noteq> 0 \<and> now w (length tr1) > startTime + Timeout req
                \<and> r = Inl (ErrRetrieveCertificateTimeout (PickupID req)) \<and> tr' = tr1))"
proof (induction fuel arbitrary: tr)
  case 0
  then show ?case by simp
next
  case (Suc fuel)
  obtain res tr1 where st: "getCertificateStatus w c (PickupID req) tr = (res, tr1)"
    by (cases "getCertificateStatus w c (PickupID req) tr")
  show ?case
  proof (cases "RetrieveCertificate_poll fuel w c req startTime (tr1 @ [Sleep (2 * Second)])
                  = Some (r, tr')")
    case True
    from Suc.IH[OF True] show ?thesis .
  next
    case False
    with Suc.prems st show ?thesis
      by (cases res) (force split: if_splits)+
  qed
qed

text \<open>
  Claim C9, amended. \<open>RetrieveCertificate\<close> has no cancellation check: whatever the
  host's cancellation signal is, the operation returns the same result with the same
  trace (or runs on alike). The wait ends only as the loop says: whenever the loop
  returns, it does so after a status lookup that failed, or that gave ISSUED (the
  result is that of the retrieval call), or that gave FAILED, or that gave another
  status with a zero timeout (\<open>ErrCertificatePending\<close>) or with the timeout passed
  (\<open>ErrRetrieveCertificateTimeout\<close>). No other error ends the wait.
\<close>

theorem retrieve_ignores_cancellation:
  "RetrieveCertificate fuel (w\<lparr>cancelRequested := s\<rparr>) c req tr
     = RetrieveCertificate fuel w c req tr
   \<and> (\<forall>r tr'. RetrieveCertificate_poll fuel (w\<lparr>cancelRequested := s\<rparr>) c req startTime tr
                 = Some (r, tr') \<longrightarrow>
        (\<exists>tr0 res tr1. getCertificateStatus w c (PickupID req) tr0 = (res, tr1) \<and>
          ((\<exists>e. res = Inl e \<and> r = Inl (ErrUnableToRetrieve e) \<and> tr' = tr1)
           \<or> (\<exists>st. res = Inr st \<and> Status st = ''ISSUED''
                     \<and> (r, tr') = RetrieveCertificate_fetch w c req tr1)
           \<or> (\<exists>st. res = Inr st \<and> Status st = ''FAILED''
                     \<and> r = Inl (ErrIssuanceFailed st) \<and> tr' = tr1)
           \<or> (\<exists>st. res = Inr st \<and> Status st \<noteq> ''ISSUED'' \<and> Status st \<noteq> ''FAILED'' \<and> Timeout req = 0
                     \<and> r = Inl (ErrCertificatePending (PickupID req) (Status st)) \<and> tr' = tr1)
           \<or> (\<exists>st. res = Inr st \<and> Status st \<noteq> ''ISSUED'' \<and> Status st \<noteq> ''FAILED''
                \<and> Timeout req \<noteq> 0 \<and> now w (length tr1) > startTime + Timeout req
                     \<and> r = Inl (ErrRetrieveCertificateTimeout (PickupID req))
                     \<and> tr' = tr1))))"
proof (intro conjI allI impI)
  show "RetrieveCertificate fuel (w\<lparr>cancelRequested := s\<rparr>) c req tr
          = RetrieveCertificate fuel w c req tr"
    by (simp add: RetrieveCertificate_def split: prod.splits sum.splits)
next
  fix r tr'
  assume "RetrieveCertificate_poll fuel (w\<lparr>cancelRequested := s\<rparr>) c req startTime tr
            = Some (r, tr')"
  then have "RetrieveCertificate_poll fuel w c req startTime tr = Some (r, tr')" by simp
  from RetrieveCertificate_poll_exits[OF this]
  show "\<exists>tr0 res tr1. getCertificateStatus w c (PickupID req) tr0 = (res, tr1) \<and>
          ((\<exists>e. res = Inl e \<and> r = Inl (ErrUnableToRetrieve e) \<and> tr' = tr1)
           \<or> (\<exists>st. res = Inr st \<and> Status st = ''ISSUED''
                     \<and> (r, tr') = RetrieveCertificate_fetch w c req tr1)
           \<or> (\<exists>st. res = Inr st \<and> Status st = ''FAILED''
                     \<and> r = Inl (ErrIssuanceFailed st) \<and> tr' = tr1)
           \<or> (\<exists>st. res = Inr st \<and> Status st \<noteq> ''ISSUED'' \<and> Status st \<noteq> ''FAILED'' \<and> Timeout req = 0
                     \<and> r = Inl (ErrCertificatePending (PickupID req) (Status st)) \<and> tr' = tr1)
           \<or> (\<exists>st. res = Inr st \<and> Status st \<noteq> ''ISSUED'' \<and> Status st \<noteq> ''FAILED''
                \<and> Timeout req \<noteq> 0 \<and> now w (length tr1) > startTime + Timeout req
                     \<and> r = Inl (ErrRetrieveCertificateTimeout (PickupID req))
                     \<and> tr' = tr1))" .
qed

text \<open>
  A run in the concrete world with cancellation asked for at every instant and a
  timeout of ten seconds: the status is REQUESTED, then, after the sleep, FAILED. The
  run is that of the world without the signal, and it ends by the FAILED exit, after
  the second status lookup.
\<close>

theorem retrieve_ignores_cancellation_witness:
  "RetrieveCertificate 2 (exampleWorldCancelled [ok ''REQUESTED'', ok [], ok ''FAILED''])
       exampleConnector (exampleRequest\<lparr>Timeout := 10 * Second\<rparr>) []
     = RetrieveCertificate 2 (exampleWorld [ok ''REQUESTED'', ok [], ok ''FAILED''])
         exampleConnector (exampleRequest\<lparr>Timeout := 10 * Second\<rparr>) []
   \<and> RetrieveCertificate_poll 2 (exampleWorldCancelled [ok ''REQUESTED'', ok [], ok ''FAILED''])
       exampleConnector (exampleRequest\<lparr>Timeout := 10 * Second\<rparr>) 0 []
     = Some (Inl (ErrIssuanceFailed
                    \<lparr>Status = ''FAILED'', ZoneId = ''Z1'', ManagedCertificateId = ''M1''\<rparr>),
             [Call ''GET'' ''https://api.venafi.cloud/v1/certificaterequests/R1'' NoPayload,
              Sleep (2 * Second),
              Call ''GET'' ''https://api.venafi.cloud/v1/certificaterequests/R1'' NoPayload])
   \<and> getCertificateStatus (exampleWorld [ok ''REQUESTED'', ok [], ok ''FAILED''])
         exampleConnector ''R1''
         [Call ''GET'' ''https://api.venafi.cloud/v1/certificaterequests/R1'' NoPayload,
          Sleep (2 * Second)]
     = (Inr \<lparr>Status = ''FAILED'', ZoneId = ''Z1'', ManagedCertificateId = ''M1''\<rparr>,
        [Call ''GET'' ''https://api.venafi.cloud/v1/certificaterequests/R1'' NoPayload,
         Sleep (2 * Second),
         Call ''GET'' ''https://api.venafi.cloud/v1/certificaterequests/R1'' NoPayload])"
proof -
  let ?a = "[ok ''REQUESTED'', ok [], ok ''FAILED'']"
  let ?req = "exampleRequest\<lparr>Timeout := 10 * Second\<rparr>"
  let ?st = "\<lparr>Status = ''FAILED'', ZoneId = ''Z1'', ManagedCertificateId = ''M1''\<rparr>"
  let ?tr = "[Call ''GET'' ''https://api.venafi.cloud/v1/certificaterequests/R1'' NoPayload,
              Sleep (2 * Second),
              Call ''GET'' ''https://api.venafi.cloud/v1/certificaterequests/R1'' NoPayload]"
  have w: "exampleWorldCancelled ?a = (exampleWorld ?a)\<lparr>cancelRequested := (\<lambda>n. True)\<rparr>"
    by (simp add: exampleWorldCancelled_def)
  have run: "RetrieveCertificate_poll 2 ((exampleWorld ?a)\<lparr>cancelRequested := (\<lambda>n. True)\<rparr>)
               exampleConnector ?req 0 [] = Some (Inl (ErrIssuanceFailed ?st), ?tr)"
    by (simp add: getCertificateStatus_def request_def Let_def eval_nat_numeral
        example_defs response_defs constant_defs)
  have last: "getCertificateStatus (exampleWorld ?a) exampleConnector ''R1''
         [Call ''GET'' ''https://api.venafi.cloud/v1/certificaterequests/R1'' NoPayload,
          Sleep (2 * Second)] = (Inr ?st, ?tr)"
    by (simp add: getCertificateStatus_def request_def Let_def
        example_defs response_defs constant_defs)
  note inst = retrieve_ignores_cancellation[where fuel = 2 and w = "exampleWorld ?a"
      and s = "\<lambda>n. True" and c = exampleConnector and req = "?req" and tr = "[]"
      and startTime = 0]
  from inst have same: "RetrieveCertificate 2 ((exampleWorld ?a)\<lparr>cancelRequested := (\<lambda>n. True)\<rparr>)
      exampleConnector ?req [] = RetrieveCertificate 2 (exampleWorld ?a) exampleConnector ?req []"
    by (rule conjunct1)
  show ?thesis using same run last unfolding w by blast
qed

subsection \<open>Renewal of a superseded request\<close>

lemma RenewCertificate_requestId_trace:
  "RenewCertificate_requestId w c renewReq tr = (r, tr1) \<Longrightarrow>
   \<exists>evs. tr1 = tr @ evs \<and> (\<forall>ev \<in> set evs. \<not> isSubmission ev)"
  by (auto simp: RenewCertificate_requestId_def searchCertificatesByFingerprint_def
      searchCertificates_def request_def Let_def isSubmission_def
      split: if_splits sum.splits prod.splits)

text \<open>
  What the third step of \<open>RenewCertificate\<close> does for every input. Let the first step
  resolve the request id \<open>rid\<close>, the status lookup for \<open>rid\<close> give a managed-certificate id
  and a zone id that are not empty, and the managed-certificate record be fetched. If
  its latest request id is not \<open>rid\<close>, \<open>RenewCertificate\<close> returns the stale-target error,
  whose message is the format string, with the thumbprint text inside, formatted with
  the three ids; and none of the events it has caused is a submission of a certificate
  request.
\<close>

lemma renew_stale_target:
  assumes rid: "RenewCertificate_requestId w c renewReq tr = (Inr rid, tr1)"
      and prev: "getCertificateStatus w c rid tr1 = (Inr prev, tr2)"
      and mc_id: "ManagedCertificateId prev \<noteq> []"
      and zone_id: "ZoneId prev \<noteq> []"
      and mc: "getManagedCertificate w c (ManagedCertificateId prev) tr2 = (Inr mc, tr3)"
      and stale: "LatestCertificateRequestId mc \<noteq> rid"
  shows "RenewCertificate w c renewReq tr =
           (Inl (ErrNotTheLatest
                   (Sprintf (notTheLatestFormat
                               (if Thumbprint_rr renewReq \<noteq> []
                                then Sprintf ''with thumbprint %s '' [Thumbprint_rr renewReq]
                                else []))
                      [rid, ManagedCertificateId prev, LatestCertificateRequestId mc])), tr3)
         \<and> (\<forall>ev \<in> set (drop (length tr) tr3). \<not> isSubmission ev)"
proof -
  have r: "RenewCertificate w c renewReq tr =
           (Inl (ErrNotTheLatest
                   (Sprintf (notTheLatestFormat
                               (if Thumbprint_rr renewReq \<noteq> []
                                then Sprintf ''with thumbprint %s '' [Thumbprint_rr renewReq]
                                else []))
                      [rid, ManagedCertificateId prev, LatestCertificateRequestId mc])), tr3)"
    using assms by (simp add: RenewCertificate_def Let_def)
  obtain evs where e1: "tr1 = tr @ evs" and n1: "\<forall>ev \<in> set evs. \<not> isSubmission ev"
    using RenewCertificate_requestId_trace[OF rid] by auto
  have "tr3 = tr @ evs @
          [Call ''GET'' (Sprintf (getURL w c urlResourceCertificateStatus) [rid]) NoPayload,
           Call ''GET'' (Sprintf (getURL w c urlResourceManagedCertificateById)
                           [ManagedCertificateId prev]) NoPayload]"
    using getCertificateStatus_trace[OF prev] getManagedCertificate_trace[OF mc] e1 by simp
  then have "\<forall>ev \<in> set (drop (length tr) tr3). \<not> isSubmission ev"
    using n1 by (auto simp: isSubmission_def)
  with r show ?thesis by simp
qed

text \<open>
  The same renewal in the concrete world with an ordinary thumbprint, aa:bb: the search
  finds one certificate, of request R1; the status of R1 names the managed certificate
  M1; the latest request of M1 is R2. The message names the three ids in their places.
\<close>

lemma renew_stale_target_example:
  "RenewCertificate (exampleWorld [ok ''R1'', ok ''ISSUED'', ok ''R2'']) exampleConnector
     exampleRenewal []
   = (Inl (ErrNotTheLatest
       (''Certificate under requestId R1 with thumbprint aa:bb is not the latest under ''
        @ ''ManagedCertificateId M1. The latest request is R2. ''
        @ ''This error may happen when revoked certificate is requested to be renewed.'')),
      [Call ''POST'' ''https://api.venafi.cloud/v1/certificatesearch''
         (SearchRequestPayload \<lparr>Expression = Some \<lparr>Operands =
            [\<lparr>Field = ''fingerprint'', Operator = MATCH, Value = ''AABB''\<rparr>]\<rparr>\<rparr>),
       Call ''GET'' ''https://api.venafi.cloud/v1/certificaterequests/R1'' NoPayload,
       Call ''GET'' ''https://api.venafi.cloud/v1/managedcertificates/M1'' NoPayload])"
  by code_simp

text \<open>
  Claim C3 at a concrete input: the same renewal, asked for by the thumbprint \<open>%s\<close>.
  No certificate request is submitted (the trace is the search and the two lookups),
  and the stale-target error is returned, but its message does not name the three ids
  as the claim says: the thumbprint text is part of the format string, so its verb
  takes the managed-certificate id M1, the place of the managed-certificate id shows
  the latest request id R2, and the place of the latest request id shows
  \<open>%!s(MISSING)\<close>.
\<close>

theorem renew_stale_message_shifted:
  "RenewCertificate (exampleWorld [ok ''R1'', ok ''ISSUED'', ok ''R2'']) exampleConnector
     (exampleRenewal\<lparr>Thumbprint_rr := ''%s''\<rparr>) []
   = (Inl (ErrNotTheLatest
       (''Certificate under requestId R1 with thumbprint M1 is not the latest under ''
        @ ''ManagedCertificateId R2. The latest request is %!s(MISSING). ''
        @ ''This error may happen when revoked certificate is requested to be renewed.'')),
      [Call ''POST'' ''https://api.venafi.cloud/v1/certificatesearch''
         (SearchRequestPayload \<lparr>Expression = Some \<lparr>Operands =
            [\<lparr>Field = ''fingerprint'', Operator = MATCH, Value = ''%S''\<rparr>]\<rparr>\<rparr>),
       Call ''GET'' ''https://api.venafi.cloud/v1/certificaterequests/R1'' NoPayload,
       Call ''GET'' ''https://api.venafi.cloud/v1/managedcertificates/M1'' NoPayload])"
  by code_simp

subsection \<open>Fingerprint search\<close>

text \<open>The loop over the hits collects all request ids, and once cleared the flag stays so.\<close>

lemma requestIdLoop_ids:
  "fst (requestIdLoop certs r b cur) = r @ map CertificateRequestId certs"
  by (induction certs arbitrary: r b cur) auto

lemma requestIdLoop_False: "\<not> fst (snd (requestIdLoop certs r False cur))"
  by (induction certs arbitrary: r cur) auto

lemma requestIdLoop_differs:
  "cur \<noteq> [] \<Longrightarrow> \<exists>x \<in> set certs. CertificateRequestId x \<noteq> cur \<Longrightarrow>
   \<not> fst (snd (requestIdLoop certs r b cur))"
proof (induction certs arbitrary: r b cur)
  case Nil
  then show ?case by simp
next
  case (Cons x xs)
  show ?case
  proof (cases "CertificateRequestId x = cur")
    case True
    with Cons.prems have "\<exists>y \<in> set xs. CertificateRequestId y \<noteq> cur" by auto
    with Cons.IH[OF Cons.prems(1)] True show ?thesis by simp
  next
    case False
    with Cons.prems(1) show ?thesis by (simp add: requestIdLoop_False)
  qed
qed

lemma requestIdLoop_two_ids:
  assumes "x \<in> set certs" "y \<in> set certs"
    "CertificateRequestId x \<noteq> []" "CertificateRequestId y \<noteq> []"
    "CertificateRequestId x \<noteq> CertificateRequestId y"
  shows "\<not> fst (snd (requestIdLoop certs r b cur))"
  using assms
proof (induction certs arbitrary: r b cur)
  case Nil
  then show ?case by simp
next
  case (Cons z zs)
  show ?case
  proof (cases "CertificateRequestId z = []")
    case True
    with Cons.prems have "x \<in> set zs" "y \<in> set zs" by auto
    from Cons.IH[OF this Cons.prems(3,4,5)] show ?thesis by simp
  next
    case False
    have "\<exists>v \<in> set zs. CertificateRequestId v \<noteq> CertificateRequestId z"
      using Cons.prems by (metis set_ConsD)
    from requestIdLoop_differs[OF False this] show ?thesis by simp
  qed
qed

text \<open>
  Claim C4 at a concrete input: the search finds two certificates, the first with an
  empty request id and the second of request R1. The certificates map to two distinct
  request ids, and yet no ambiguity error is raised: \<open>RetrieveCertificate\<close> takes R1 as
  its pickup id and \<open>RenewCertificate\<close> resolves R1. The loop compares an id with the one
  before it only when the one before is not empty, the empty string being also its
  mark for no id seen yet. The same two certificates in the other order do raise the
  error, with both ids listed.
\<close>

theorem fingerprint_search_empty_id_first:
  "ParseCertificateSearchResponse (exampleWorldFinding [ok ''found''] [[], ''R1'']) 200 ''found''
     = Inr \<lparr>Certificates = [\<lparr>CertificateRequestId = []\<rparr>, \<lparr>CertificateRequestId = ''R1''\<rparr>]\<rparr>
   \<and> fst (RetrieveCertificate_pickup (exampleWorldFinding [ok ''found''] [[], ''R1''])
            exampleConnector (exampleRequest\<lparr>PickupID := [], Thumbprint := ''aa:bb''\<rparr>) [])
     = Inr (exampleRequest\<lparr>PickupID := ''R1'', Thumbprint := ''aa:bb''\<rparr>)
   \<and> fst (RenewCertificate_requestId (exampleWorldFinding [ok ''found''] [[], ''R1''])
            exampleConnector exampleRenewal [])
     = Inr ''R1''
   \<and> fst (RetrieveCertificate_pickup (exampleWorldFinding [ok ''found''] [''R1'', []])
            exampleConnector (exampleRequest\<lparr>PickupID := [], Thumbprint := ''aa:bb''\<rparr>) [])
     = Inl (ErrMoreThanOneRequestId [''R1'', []])
   \<and> fst (RenewCertificate_requestId (exampleWorldFinding [ok ''found''] [''R1'', []])
            exampleConnector exampleRenewal [])
     = Inl (ErrRenewMoreThanOneRequestId [''R1'', []])"
  by (simp add: RetrieveCertificate_pickup_def RenewCertificate_requestId_def
      searchCertificatesByFingerprint_def searchCertificates_def request_def Let_def
      example_defs response_defs)

text \<open>
  What the two operations do guarantee. Let the fingerprint search of
  \<open>RetrieveCertificate\<close> (made when the request has a thumbprint and no pickup id) or of
  \<open>RenewCertificate\<close> (made when the renewal has a thumbprint) succeed. If it finds no
  certificate, the operation fails with \<open>ErrNoCertificateFound\<close> for that thumbprint. If
  the certificates found carry two different request ids that are both not empty, the
  operation fails with the ambiguity error, which lists the request ids of all
  certificates found; it returns no value and makes no further call.
\<close>

lemma fingerprint_search_outcomes:
  assumes search: "searchCertificatesByFingerprint w c fp tr = (Inr sr, tr1)"
      and fp: "fp \<noteq> []"
      and req: "Thumbprint req = fp" "PickupID req = []" "\<not> FetchPrivateKey req"
      and rr: "Thumbprint_rr renewReq = fp"
  shows "(Certificates sr = [] \<longrightarrow>
            RetrieveCertificate fuel w c req tr = Some (Inl (ErrNoCertificateFound fp), req, tr1)
          \<and> RenewCertificate w c renewReq tr = (Inl (ErrNoCertificateFound fp), tr1))
       \<and> ((\<exists>x \<in> set (Certificates sr). \<exists>y \<in> set (Certificates sr).
              CertificateRequestId x \<noteq> [] \<and> CertificateRequestId y \<noteq> [] \<and>
              CertificateRequestId x \<noteq> CertificateRequestId y) \<longrightarrow>
            RetrieveCertificate fuel w c req tr =
              Some (Inl (ErrMoreThanOneRequestId (map CertificateRequestId (Certificates sr))),
                    req, tr1)
          \<and> RenewCertificate w c renewReq tr =
              (Inl (ErrRenewMoreThanOneRequestId (map CertificateRequestId (Certificates sr))),
               tr1))"
proof (intro conjI impI)
  assume "Certificates sr = []"
  then show "RetrieveCertificate fuel w c req tr
             = Some (Inl (ErrNoCertificateFound fp), req, tr1)"
    using assms by (simp add: RetrieveCertificate_def RetrieveCertificate_pickup_def)
next
  assume "Certificates sr = []"
  then show "RenewCertificate w c renewReq tr = (Inl (ErrNoCertificateFound fp), tr1)"
    using assms by (simp add: RenewCertificate_def RenewCertificate_requestId_def)
next
  assume two: "\<exists>x \<in> set (Certificates sr). \<exists>y \<in> set (Certificates sr).
              CertificateRequestId x \<noteq> [] \<and> CertificateRequestId y \<noteq> [] \<and>
              CertificateRequestId x \<noteq> CertificateRequestId y"
  then have ne: "Certificates sr \<noteq> []" by auto
  obtain ids b cur where l: "requestIdLoop (Certificates sr) [] True [] = (ids, b, cur)"
    by (cases "requestIdLoop (Certificates sr) [] True []") auto
  have "\<not> b"
    using two requestIdLoop_two_ids[of _ "Certificates sr" _ "[]" True "[]"] l by fastforce
  moreover have "ids = map CertificateRequestId (Certificates sr)"
    using requestIdLoop_ids[of "Certificates sr" "[]" True "[]"] l by simp
  ultimately show "RetrieveCertificate fuel w c req tr =
              Some (Inl (ErrMoreThanOneRequestId (map CertificateRequestId (Certificates sr))),
                    req, tr1)"
    and "RenewCertificate w c renewReq tr =
              (Inl (ErrRenewMoreThanOneRequestId (map CertificateRequestId (Certificates sr))),
               tr1)"
    using assms ne l
    by (simp_all add: RetrieveCertificate_def RetrieveCertificate_pickup_def
        RenewCertificate_def RenewCertificate_requestId_def)
qed

text \<open>
  Two searches in the concrete world: one that finds nothing, one that finds the
  certificates of the requests R1 and R2.
\<close>

lemma fingerprint_search_outcomes_example:
  "RetrieveCertificate 1 (exampleWorldFinding [ok ''found''] []) exampleConnector
       (exampleRequest\<lparr>PickupID := [], Thumbprint := ''aa:bb''\<rparr>) []
     = Some (Inl (ErrNoCertificateFound ''aa:bb''),
             exampleRequest\<lparr>PickupID := [], Thumbprint := ''aa:bb''\<rparr>,
             [Call ''POST'' ''https://api.venafi.cloud/v1/certificatesearch''
                (SearchRequestPayload (fingerprintSearchRequest ''aa:bb''))])
   \<and> RenewCertificate (exampleWorldFinding [ok ''found''] [''R1'', ''R2'']) exampleConnector
       exampleRenewal []
     = (Inl (ErrRenewMoreThanOneRequestId [''R1'', ''R2'']),
        [Call ''POST'' ''https://api.venafi.cloud/v1/certificatesearch''
           (SearchRequestPayload (fingerprintSearchRequest ''aa:bb''))])"
proof -
  let ?w0 = "exampleWorldFinding [ok ''found''] []"
  let ?w2 = "exampleWorldFinding [ok ''found''] [''R1'', ''R2'']"
  let ?req = "exampleRequest\<lparr>PickupID := [], Thumbprint := ''aa:bb''\<rparr>"
  let ?tr1 = "[Call ''POST'' ''https://api.venafi.cloud/v1/certificatesearch''
                (SearchRequestPayload (fingerprintSearchRequest ''aa:bb''))]"
  let ?certs = "[\<lparr>CertificateRequestId = ''R1''\<rparr>, \<lparr>CertificateRequestId = ''R2''\<rparr>]"
  have s0: "searchCertificatesByFingerprint ?w0 exampleConnector ''aa:bb'' []
            = (Inr \<lparr>Certificates = []\<rparr>, ?tr1)"
    by (simp add: searchCertificatesByFingerprint_def searchCertificates_def request_def
        Let_def example_defs response_defs constant_defs)
  have s2: "searchCertificatesByFingerprint ?w2 exampleConnector ''aa:bb'' []
            = (Inr \<lparr>Certificates = ?certs\<rparr>, ?tr1)"
    by (simp add: searchCertificatesByFingerprint_def searchCertificates_def request_def
        Let_def example_defs response_defs constant_defs)
  have fp: "''aa:bb'' \<noteq> []" by simp
  have rq: "Thumbprint ?req = ''aa:bb''" "PickupID ?req = []" "\<not> FetchPrivateKey ?req"
    by (simp_all add: exampleRequest_def)
  have rr: "Thumbprint_rr exampleRenewal = ''aa:bb''" by (simp add: exampleRenewal_def)
  have none: "Certificates \<lparr>Certificates = []\<rparr> = []" by simp
  have two: "\<exists>x \<in> set (Certificates \<lparr>Certificates = ?certs\<rparr>).
             \<exists>y \<in> set (Certificates \<lparr>Certificates = ?certs\<rparr>).
               CertificateRequestId x \<noteq> [] \<and> CertificateRequestId y \<noteq> [] \<and>
               CertificateRequestId x \<noteq> CertificateRequestId y"
    by simp
  have one: "(1::nat) = Suc 0" by simp
  show ?thesis
    using fingerprint_search_outcomes[OF s0 fp rq rr, of 1] none
          fingerprint_search_outcomes[OF s2 fp rq rr, of 1] two
    by simp
qed


subsection \<open>Fingerprint normal form\<close>

declare Replace.simps [simp del]

text \<open>Replacing a one-character string by the empty string deletes that character.\<close>

lemma Replace_char: "Replace s [ch] [] = filter (\<lambda>x. x \<noteq> ch) s"
proof (induction s)
  case Nil
  then show ?case by (subst Replace.simps) simp
next
  case (Cons a s)
  then show ?case by (subst Replace.simps) auto
qed

lemma fingerprintSearchRequest_normalized:
  "fingerprintSearchRequest fp =
     \<lparr>Expression = Some \<lparr>Operands =
        [\<lparr>Field = ''fingerprint'', Operator = MATCH, Value = normalizedFingerprint fp\<rparr>]\<rparr>\<rparr>"
  by (simp add: fingerprintSearchRequest_def normalizedFingerprint_def Replace_char Let_def
      conj_commute)

text \<open>
  Claim C5. Let two fingerprints be equal once every colon and every dot is deleted and
  the rest is put in upper case. Then \<open>searchCertificatesByFingerprint\<close> builds the same
  search request for both, and, started in the same state, makes the same call and
  returns the same result. Hence, when both are not empty, the first step of
  \<open>RenewCertificate\<close> resolves the same request id for both, and the first part of
  \<open>RetrieveCertificate\<close> finds the same pickup id for both.
\<close>

theorem same_fingerprint_same_search:
  assumes "normalizedFingerprint fp1 = normalizedFingerprint fp2"
  shows "fingerprintSearchRequest fp1 = fingerprintSearchRequest fp2
       \<and> searchCertificatesByFingerprint w c fp1 tr = searchCertificatesByFingerprint w c fp2 tr
       \<and> (fp1 \<noteq> [] \<and> fp2 \<noteq> [] \<longrightarrow>
            (\<forall>rid tr1.
               RenewCertificate_requestId w c (renewReq\<lparr>Thumbprint_rr := fp1\<rparr>) tr
                 = (Inr rid, tr1)
               \<longleftrightarrow> RenewCertificate_requestId w c (renewReq\<lparr>Thumbprint_rr := fp2\<rparr>) tr
                 = (Inr rid, tr1))
          \<and> (\<forall>rid tr1.
               (\<exists>r. RetrieveCertificate_pickup w c (req\<lparr>PickupID := [], Thumbprint := fp1\<rparr>) tr
                      = (Inr r, tr1) \<and> PickupID r = rid)
               \<longleftrightarrow>
               (\<exists>r. RetrieveCertificate_pickup w c (req\<lparr>PickupID := [], Thumbprint := fp2\<rparr>) tr
                      = (Inr r, tr1) \<and> PickupID r = rid)))"
proof -
  have a: "fingerprintSearchRequest fp1 = fingerprintSearchRequest fp2"
    using assms by (simp add: fingerprintSearchRequest_normalized)
  then have b: "searchCertificatesByFingerprint w c fp1 tr
                = searchCertificatesByFingerprint w c fp2 tr"
    by (simp add: searchCertificatesByFingerprint_def)
  have c: "fp1 \<noteq> [] \<and> fp2 \<noteq> [] \<longrightarrow>
            (\<forall>rid tr1.
               RenewCertificate_requestId w c (renewReq\<lparr>Thumbprint_rr := fp1\<rparr>) tr
                 = (Inr rid, tr1)
               \<longleftrightarrow> RenewCertificate_requestId w c (renewReq\<lparr>Thumbprint_rr := fp2\<rparr>) tr
                 = (Inr rid, tr1))"
    using b by (auto simp: RenewCertificate_requestId_def split: prod.splits sum.splits if_splits)
  have d: "fp1 \<noteq> [] \<and> fp2 \<noteq> [] \<longrightarrow> (\<forall>rid tr1.
               (\<exists>r. RetrieveCertificate_pickup w c (req\<lparr>PickupID := [], Thumbprint := fp1\<rparr>) tr
                      = (Inr r, tr1) \<and> PickupID r = rid)
               \<longleftrightarrow>
               (\<exists>r. RetrieveCertificate_pickup w c (req\<lparr>PickupID := [], Thumbprint := fp2\<rparr>) tr
                      = (Inr r, tr1) \<and> PickupID r = rid))"
    using b by (auto simp: RetrieveCertificate_pickup_def split: prod.splits sum.splits if_splits)
  show ?thesis using a b c d by blast
qed

text \<open>
  The fingerprints \<open>aa:bb.cc\<close> and \<open>AABBCC\<close> have the same normal form, and the search
  request built for each has the value \<open>AABBCC\<close>.
\<close>

theorem same_fingerprint_same_search_witness:
  "normalizedFingerprint ''aa:bb.cc'' = normalizedFingerprint ''AABBCC''
   \<and> fingerprintSearchRequest ''aa:bb.cc'' = fingerprintSearchRequest ''AABBCC''
   \<and> fingerprintSearchRequest ''AABBCC'' =
       \<lparr>Expression = Some \<lparr>Operands =
          [\<lparr>Field = ''fingerprint'', Operator = MATCH, Value = ''AABBCC''\<rparr>]\<rparr>\<rparr>"
proof -
  have n: "normalizedFingerprint ''aa:bb.cc'' = normalizedFingerprint ''AABBCC''"
    by code_simp
  have v: "fingerprintSearchRequest ''AABBCC'' =
       \<lparr>Expression = Some \<lparr>Operands =
          [\<lparr>Field = ''fingerprint'', Operator = MATCH, Value = ''AABBCC''\<rparr>]\<rparr>\<rparr>"
    by code_simp
  show ?thesis
    using same_fingerprint_same_search[OF n] n v by blast
qed

subsection \<open>Policy merge\<close>

lemma mergedPolicy_Nil: "mergedPolicy [] = newCertificatePolicy"
  by (simp add: mergedPolicy_def newCertificatePolicy_def identityFragments_def
      useFragments_def)

lemma mergedPolicy_snoc: "mergedPolicy (ps @ [p]) = mergeFragment (mergedPolicy ps) p"
  by (cases "CertificatePolicyType p")
     (simp_all add: mergedPolicy_def mergeFragment_def identityFragments_def useFragments_def
        Let_def)

lemma foldl_mergeFragment:
  "foldl mergeFragment (mergedPolicy qs) ps = mergedPolicy (qs @ ps)"
proof (induction ps arbitrary: qs)
  case Nil
  then show ?case by simp
next
  case (Cons p ps)
  have "foldl mergeFragment (mergedPolicy qs) (p # ps)
        = foldl mergeFragment (mergedPolicy (qs @ [p])) ps"
    by (simp add: mergedPolicy_snoc)
  also have "\<dots> = mergedPolicy ((qs @ [p]) @ ps)" by (rule Cons.IH)
  finally show ?case by simp
qed

lemma getPoliciesByID_loop_all_fetched:
  "\<forall>r \<in> set (fetchedFragments w c ids (length tr)). \<not> isl r \<Longrightarrow>
   fst (getPoliciesByID_loop w c ids policy tr) =
     Inr (foldl mergeFragment policy (map projr (fetchedFragments w c ids (length tr))))"
proof (induction ids arbitrary: policy tr)
  case Nil
  then show ?case by simp
next
  case (Cons i ids)
  let ?u = "Sprintf (getURL w c urlResourcePoliciesByID) [i]"
  let ?resp = "transport w c (length tr) ''GET'' ?u NoPayload"
  let ?tr1 = "tr @ [Call ''GET'' ?u NoPayload]"
  obtain p where p: "parseCertificatePolicyResult w (respCode ?resp) (respStatus ?resp)
                       (bytes (respBody ?resp)) = Inr p"
    using Cons.prems
    by (cases "parseCertificatePolicyResult w (respCode ?resp) (respStatus ?resp)
                 (bytes (respBody ?resp))") (auto simp: Let_def)
  have rest: "\<forall>r \<in> set (fetchedFragments w c ids (length ?tr1)). \<not> isl r"
    using Cons.prems by (simp add: Let_def)
  from Cons.IH[OF rest, of "mergeFragment policy p"] p show ?case
    by (simp add: Let_def request_def)
qed

lemma getPoliciesByID_loop_first_error:
  "\<exists>r \<in> set (fetchedFragments w c ids (length tr)). isl r \<Longrightarrow>
   \<exists>e. Inl e \<in> set (fetchedFragments w c ids (length tr)) \<and>
       fst (getPoliciesByID_loop w c ids policy tr) = Inl e"
proof (induction ids arbitrary: policy tr)
  case Nil
  then show ?case by simp
next
  case (Cons i ids)
  let ?u = "Sprintf (getURL w c urlResourcePoliciesByID) [i]"
  let ?resp = "transport w c (length tr) ''GET'' ?u NoPayload"
  let ?tr1 = "tr @ [Call ''GET'' ?u NoPayload]"
  show ?case
  proof (cases "parseCertificatePolicyResult w (respCode ?resp) (respStatus ?resp)
                  (bytes (respBody ?resp))")
    case (Inl e)
    then show ?thesis by (auto simp: Let_def request_def)
  next
    case (Inr p)
    then have "\<exists>r \<in> set (fetchedFragments w c ids (length ?tr1)). isl r"
      using Cons.prems by (auto simp: Let_def)
    from Cons.IH[OF this, of "mergeFragment policy p"] Inr show ?thesis
      by (auto simp: Let_def request_def)
  qed
qed

text \<open>
  What \<open>getPoliciesByID\<close> does for every input. Let the connector have a user. If the
  parser accepts the answer for every id, the function returns the merged policy: its
  seven regex sets are those of the identity-type fragments only (of the last one), its
  key types and key-reuse flag those of the use-type fragments only, fragments of
  another type give nothing, and a field that no fragment gives is empty. If the parser
  rejects the answer for some id, the function returns one of these errors and no
  policy. The parser is given the status code, the status text and the body of the
  answer; the transport's own error value is not consulted.
\<close>

lemma policies_merged_by_type:
  assumes "user c \<noteq> None"
  shows "((\<forall>r \<in> set (fetchedFragments w c ids (length tr)). \<not> isl r) \<longrightarrow>
            fst (getPoliciesByID w c ids tr) =
              Inr (mergedPolicy (map projr (fetchedFragments w c ids (length tr)))))
       \<and> ((\<exists>r \<in> set (fetchedFragments w c ids (length tr)). isl r) \<longrightarrow>
            (\<exists>e. Inl e \<in> set (fetchedFragments w c ids (length tr)) \<and>
                 fst (getPoliciesByID w c ids tr) = Inl e))"
proof (intro conjI impI)
  assume ok: "\<forall>r \<in> set (fetchedFragments w c ids (length tr)). \<not> isl r"
  have "foldl mergeFragment newCertificatePolicy
          (map projr (fetchedFragments w c ids (length tr)))
        = mergedPolicy (map projr (fetchedFragments w c ids (length tr)))"
    using foldl_mergeFragment[of "[]"] by (simp add: mergedPolicy_Nil)
  then show "fst (getPoliciesByID w c ids tr) =
              Inr (mergedPolicy (map projr (fetchedFragments w c ids (length tr))))"
    using assms getPoliciesByID_loop_all_fetched[OF ok] by (simp add: getPoliciesByID_def)
next
  assume "\<exists>r \<in> set (fetchedFragments w c ids (length tr)). isl r"
  from getPoliciesByID_loop_first_error[OF this]
  show "\<exists>e. Inl e \<in> set (fetchedFragments w c ids (length tr)) \<and>
            fst (getPoliciesByID w c ids tr) = Inl e"
    using assms by (auto simp: getPoliciesByID_def)
qed


text \<open>
  Two runs in the concrete world. In the first the three fragments fetched are of use,
  identity and an unknown type (U1, I2, X3). In the second the answer for the second id
  is a 404, which the parser rejects.
\<close>

lemma policies_merged_by_type_example:
  "fst (getPoliciesByID (exampleWorld [ok ''U1'', ok ''I2'', ok ''X3'']) exampleConnector
          [''P1'', ''P2'', ''P3''] [])
     = Inr \<lparr>CertificatePolicyType = certificatePolicyTypeUnknown [],
            SubjectCNRegexes = [''I2-cn''], SubjectORegexes = [''I2-o''],
            SubjectOURegexes = [''I2-ou''], SubjectSTRegexes = [''I2-st''],
            SubjectLRegexes = [''I2-l''], SubjectCRegexes = [''I2-c''],
            SANRegexes = [''I2-san''], KeyTypes = [''U1-key''], KeyReuse = True\<rparr>
   \<and> fst (getPoliciesByID (exampleWorld [ok ''I1'', (404, ''404 Not Found'', None, None)])
            exampleConnector [''P1'', ''P2''] [])
     = Inl (ErrExternal ''unexpected status'')"
proof -
  let ?w1 = "exampleWorld [ok ''U1'', ok ''I2'', ok ''X3'']"
  let ?w2 = "exampleWorld [ok ''I1'', (404, ''404 Not Found'', None, None)]"
  have u: "user exampleConnector \<noteq> None" by (simp add: exampleConnector_def)
  have all_ok: "\<forall>r \<in> set (fetchedFragments ?w1 exampleConnector [''P1'', ''P2'', ''P3'']
                            (length ([] :: event list))). \<not> isl r"
    by code_simp
  have merged: "mergedPolicy (map projr (fetchedFragments ?w1 exampleConnector
                   [''P1'', ''P2'', ''P3''] (length ([] :: event list))))
     = \<lparr>CertificatePolicyType = certificatePolicyTypeUnknown [],
            SubjectCNRegexes = [''I2-cn''], SubjectORegexes = [''I2-o''],
            SubjectOURegexes = [''I2-ou''], SubjectSTRegexes = [''I2-st''],
            SubjectLRegexes = [''I2-l''], SubjectCRegexes = [''I2-c''],
            SANRegexes = [''I2-san''], KeyTypes = [''U1-key''], KeyReuse = True\<rparr>"
    by code_simp
  have some_error: "\<exists>r \<in> set (fetchedFragments ?w2 exampleConnector [''P1'', ''P2'']
                               (length ([] :: event list))). isl r"
    by code_simp
  have errors: "\<forall>e. Inl e \<in> set (fetchedFragments ?w2 exampleConnector [''P1'', ''P2'']
                               (length ([] :: event list)))
                     \<longrightarrow> e = ErrExternal ''unexpected status''"
    by (simp add: example_defs response_defs Let_def)
  have first: "fst (getPoliciesByID ?w1 exampleConnector [''P1'', ''P2'', ''P3''] [])
               = Inr (mergedPolicy (map projr (fetchedFragments ?w1 exampleConnector
                   [''P1'', ''P2'', ''P3''] (length ([] :: event list)))))"
    using policies_merged_by_type[OF u, of ?w1 "[''P1'', ''P2'', ''P3'']" "[]"] all_ok
    by blast
  have second: "fst (getPoliciesByID ?w2 exampleConnector [''P1'', ''P2''] [])
                = Inl (ErrExternal ''unexpected status'')"
    using policies_merged_by_type[OF u, of ?w2 "[''P1'', ''P2'']" "[]"] some_error errors
    by metis
  show ?thesis using first second unfolding merged by (rule conjI)
qed

text \<open>
  Claim C6 at a concrete input: both fetches fail in the transport (the error value it
  returns is \<open>unexpected EOF\<close>), each with status code 200 and a body the parser accepts.
  \<open>getPoliciesByID\<close> returns no error: it returns the policy merged from the two bodies,
  an identity fragment and a use fragment. The transport's error is assigned and then
  overwritten by the parser's result before it is read. \<open>getZoneByTag\<close>, given the same
  answer, returns the transport's error.
\<close>

theorem policies_transport_error_unread:
  "getPoliciesByID
     (exampleWorld [(200, ''200 OK'', Some ''I1'', Some (ErrExternal ''unexpected EOF'')),
                    (200, ''200 OK'', Some ''U2'', Some (ErrExternal ''unexpected EOF''))])
     exampleConnector [''P1'', ''P2''] []
   = (Inr \<lparr>CertificatePolicyType = certificatePolicyTypeUnknown [],
           SubjectCNRegexes = [''I1-cn''], SubjectORegexes = [''I1-o''],
           SubjectOURegexes = [''I1-ou''], SubjectSTRegexes = [''I1-st''],
           SubjectLRegexes = [''I1-l''], SubjectCRegexes = [''I1-c''],
           SANRegexes = [''I1-san''], KeyTypes = [''U2-key''], KeyReuse = True\<rparr>,
      [Call ''GET'' ''https://api.venafi.cloud/v1/certificatepolicies/P1'' NoPayload,
       Call ''GET'' ''https://api.venafi.cloud/v1/certificatepolicies/P2'' NoPayload])
   \<and> getZoneByTag
       (exampleWorld [(200, ''200 OK'', Some ''I1'', Some (ErrExternal ''unexpected EOF''))])
       exampleConnector ''Default'' []
     = (Inl (ErrExternal ''unexpected EOF''),
        [Call ''GET'' ''https://api.venafi.cloud/v1/zones/tag/Default'' NoPayload])"
  by code_simp

subsection \<open>Submitting a request\<close>

text \<open>
  Claim C8. A call of \<open>RequestCertificate\<close> with an empty zone is a call with the
  connector's own zone. If the CSR origin of the request is service-generated, the
  function returns the unsupported-origin error and the trace is unchanged: no call was
  made. Otherwise, if the connector has no user or the user no company, it returns the
  not-authenticated error, again with the trace unchanged. Otherwise the first call it
  makes is the lookup of the zone by tag, the tag being the connector's zone when the
  zone given is empty.
\<close>

theorem request_preconditions:
  "RequestCertificate w c req [] tr = RequestCertificate w c req (zone c) tr
   \<and> (CsrOrigin req = ServiceGeneratedCSR \<longrightarrow>
        RequestCertificate w c req z tr = (Inl ErrServiceGeneratedCSR, req, tr))
   \<and> (CsrOrigin req \<noteq> ServiceGeneratedCSR \<and> noCompany c \<longrightarrow>
        RequestCertificate w c req z tr = (Inl ErrMustBeAuthenticatedToRequest, req, tr))
   \<and> (CsrOrigin req \<noteq> ServiceGeneratedCSR \<and> \<not> noCompany c \<longrightarrow>
        prefix (tr @ [Call ''GET''
                        (Sprintf (getURL w c urlResourceZoneByTag) [if z = [] then zone c else z])
                        NoPayload])
               (snd (snd (RequestCertificate w c req z tr))))"
  by (auto simp: RequestCertificate_def Let_def getZoneByTag_def request_def noCompany_def
      split: option.splits sum.splits prod.splits list.splits)

text \<open>
  Three calls in the concrete world with an empty zone: a service-generated CSR, a
  connector that is not authenticated, and a call that goes through (the zone looked up
  is the connector's zone Default, the request id returned is R7).
\<close>

theorem request_preconditions_witness:
  "RequestCertificate (exampleWorld []) exampleConnector
       (exampleRequest\<lparr>CsrOrigin := ServiceGeneratedCSR\<rparr>) [] []
     = (Inl ErrServiceGeneratedCSR, exampleRequest\<lparr>CsrOrigin := ServiceGeneratedCSR\<rparr>, [])
   \<and> RequestCertificate (exampleWorld []) (exampleConnector\<lparr>user := None\<rparr>) exampleRequest [] []
     = (Inl ErrMustBeAuthenticatedToRequest, exampleRequest, [])
   \<and> prefix [Call ''GET'' ''https://api.venafi.cloud/v1/zones/tag/Default'' NoPayload]
        (snd (snd (RequestCertificate (exampleWorld [ok ''Z1'', created ''R7'']) exampleConnector
                     exampleRequest [] [])))
   \<and> fst (RequestCertificate (exampleWorld [ok ''Z1'', created ''R7'']) exampleConnector
            exampleRequest [] []) = Inr ''R7''"
proof -
  let ?w = "exampleWorld [ok ''Z1'', created ''R7'']"
  have a: "CsrOrigin (exampleRequest\<lparr>CsrOrigin := ServiceGeneratedCSR\<rparr>) = ServiceGeneratedCSR"
    by simp
  have b: "CsrOrigin exampleRequest \<noteq> ServiceGeneratedCSR \<and> noCompany (exampleConnector\<lparr>user := None\<rparr>)"
    by (simp add: exampleRequest_def noCompany_def)
  have c: "CsrOrigin exampleRequest \<noteq> ServiceGeneratedCSR \<and> \<not> noCompany exampleConnector"
    by (simp add: exampleRequest_def exampleConnector_def noCompany_def)
  have u: "Sprintf (getURL ?w exampleConnector urlResourceZoneByTag)
             [if ([] :: string) = [] then zone exampleConnector else []]
           = ''https://api.venafi.cloud/v1/zones/tag/Default''"
    by (simp add: example_defs constant_defs)
  have r: "fst (RequestCertificate ?w exampleConnector exampleRequest [] []) = Inr ''R7''"
    by code_simp
  have r1: "RequestCertificate (exampleWorld []) exampleConnector
       (exampleRequest\<lparr>CsrOrigin := ServiceGeneratedCSR\<rparr>) [] []
     = (Inl ErrServiceGeneratedCSR, exampleRequest\<lparr>CsrOrigin := ServiceGeneratedCSR\<rparr>, [])"
    using request_preconditions[of "exampleWorld []" exampleConnector
            "exampleRequest\<lparr>CsrOrigin := ServiceGeneratedCSR\<rparr>" "[]" "[]"] a
    by blast
  have r2: "RequestCertificate (exampleWorld []) (exampleConnector\<lparr>user := None\<rparr>)
              exampleRequest [] []
     = (Inl ErrMustBeAuthenticatedToRequest, exampleRequest, [])"
    using request_preconditions[of "exampleWorld []" "exampleConnector\<lparr>user := None\<rparr>"
            exampleRequest "[]" "[]"] b
    by blast
  have r3: "prefix ([] @ [Call ''GET'' (Sprintf (getURL ?w exampleConnector urlResourceZoneByTag)
             [if ([] :: string) = [] then zone exampleConnector else []]) NoPayload])
        (snd (snd (RequestCertificate ?w exampleConnector exampleRequest [] [])))"
    using request_preconditions[of ?w exampleConnector exampleRequest "[]" "[]"] c
    by blast
  show ?thesis using r1 r2 r3 r unfolding u by simp
qed

subsection \<open>The first request id of an acknowledgment\<close>

text \<open>
  Claim C10. \<open>RequestCertificate\<close> and \<open>RenewCertificate\<close> read element 0 of the request
  list of the parsed acknowledgment and do not test that the list has an element.
  Whenever the submission is made, the transport reports no error and the acknowledgment
  is parsed, the function panics (index out of range) if the request list is empty, and
  returns the id of the first request otherwise: a request id is returned only for an
  acknowledgment with at least one request.
\<close>

theorem first_request_id:
  "(CsrOrigin req \<noteq> ServiceGeneratedCSR \<and> \<not> noCompany c
      \<and> getZoneByTag w c (if z = [] then zone c else z) tr = (Inr zn, tr1)
      \<and> transport w c (length tr1) ''POST'' (getURL w c urlResourceCertificateRequests)
           (CertificateRequestPayload \<lparr>ZoneID = ID_zone zn, CSR_cr = CSR req,
              ExistingManagedCertificateId = [], ReuseCSR = False\<rparr>) = (code, status, body, None)
      \<and> parseCertificateRequestResult w code status (bytes body) = Inr cr
    \<longrightarrow> fst (RequestCertificate w c req z tr) =
          (case CertificateRequests cr of [] \<Rightarrow> Inl PanicIndexOutOfRange | r # rs \<Rightarrow> Inr (ID r)))
 \<and> (RenewCertificate_requestId w c renewReq tr = (Inr rid, tr1')
      \<and> getCertificateStatus w c rid tr1' = (Inr prev, tr2)
      \<and> ManagedCertificateId prev \<noteq> [] \<and> ZoneId prev \<noteq> []
      \<and> getManagedCertificate w c (ManagedCertificateId prev) tr2 = (Inr mc, tr3)
      \<and> LatestCertificateRequestId mc = rid \<and> \<not> noCompany c
      \<and> transport w c (length tr3) ''POST'' (getURL w c urlResourceCertificateRequests)
           (CertificateRequestPayload
              (renewalBody renewReq (ZoneId prev) (ManagedCertificateId prev)))
          = (code', status', body', None)
      \<and> parseCertificateRequestResult w code' status' (bytes body') = Inr cr'
    \<longrightarrow> fst (RenewCertificate w c renewReq tr) =
          (case CertificateRequests cr' of [] \<Rightarrow> Inl PanicIndexOutOfRange | r # rs \<Rightarrow> Inr (ID r)))"
  by (auto simp: RequestCertificate_def RenewCertificate_def Let_def request_def
      respErr_def respCode_def respStatus_def respBody_def
      split: list.splits)


text \<open>
  Two runs in the concrete world in which the service acknowledges the submission with
  an empty request list: a request, and a renewal of the request R1 (named by
  \<open>CertificateDN\<close>), which is the latest of its managed certificate. Both panic.
\<close>

theorem first_request_id_witness:
  "fst (RequestCertificate (exampleWorld [ok ''Z1'', created []]) exampleConnector
          exampleRequest [] []) = Inl PanicIndexOutOfRange
   \<and> fst (RenewCertificate (exampleWorld [ok ''ISSUED'', ok ''R1'', created []]) exampleConnector
            (exampleRenewal\<lparr>CertificateDN := ''R1'', Thumbprint_rr := []\<rparr>) [])
       = Inl PanicIndexOutOfRange"
proof -
  let ?w1 = "exampleWorld [ok ''Z1'', created []]"
  let ?w2 = "exampleWorld [ok ''ISSUED'', ok ''R1'', created []]"
  let ?rr = "exampleRenewal\<lparr>CertificateDN := ''R1'', Thumbprint_rr := []\<rparr>"
  let ?zn = "\<lparr>ID_zone = ''Z1'', DefaultCertificateIdentityPolicy = ''P1'',
              DefaultCertificateUsePolicy = ''P2''\<rparr>"
  let ?zoneCall = "Call ''GET'' ''https://api.venafi.cloud/v1/zones/tag/Default'' NoPayload"
  let ?status = "Call ''GET'' ''https://api.venafi.cloud/v1/certificaterequests/R1'' NoPayload"
  let ?managed = "Call ''GET'' ''https://api.venafi.cloud/v1/managedcertificates/M1'' NoPayload"
  let ?prev = "\<lparr>Status = ''ISSUED'', ZoneId = ''Z1'', ManagedCertificateId = ''M1''\<rparr>"
  let ?mc = "\<lparr>Id = ''M1'', CompanyId = ''C1'', LatestCertificateRequestId = ''R1'',
              CertificateName = ''cn=a.example.com''\<rparr>"
  let ?ack = "\<lparr>CertificateRequests = []\<rparr>"
  have h1: "CsrOrigin exampleRequest \<noteq> ServiceGeneratedCSR \<and> \<not> noCompany exampleConnector
      \<and> getZoneByTag ?w1 exampleConnector (if ([] :: string) = [] then zone exampleConnector else [])
          [] = (Inr ?zn, [?zoneCall])
      \<and> transport ?w1 exampleConnector (length [?zoneCall]) ''POST''
           (getURL ?w1 exampleConnector urlResourceCertificateRequests)
           (CertificateRequestPayload \<lparr>ZoneID = ID_zone ?zn, CSR_cr = CSR exampleRequest,
              ExistingManagedCertificateId = [], ReuseCSR = False\<rparr>)
          = (201, ''201 Created'', Some [], None)
      \<and> parseCertificateRequestResult ?w1 201 ''201 Created'' (bytes (Some [])) = Inr ?ack"
    by code_simp
  have h2: "RenewCertificate_requestId ?w2 exampleConnector ?rr [] = (Inr ''R1'', [])
      \<and> getCertificateStatus ?w2 exampleConnector ''R1'' [] = (Inr ?prev, [?status])
      \<and> ManagedCertificateId ?prev \<noteq> [] \<and> ZoneId ?prev \<noteq> []
      \<and> getManagedCertificate ?w2 exampleConnector (ManagedCertificateId ?prev) [?status]
          = (Inr ?mc, [?status, ?managed])
      \<and> LatestCertificateRequestId ?mc = ''R1'' \<and> \<not> noCompany exampleConnector
      \<and> transport ?w2 exampleConnector (length [?status, ?managed]) ''POST''
           (getURL ?w2 exampleConnector urlResourceCertificateRequests)
           (CertificateRequestPayload
              (renewalBody ?rr (ZoneId ?prev) (ManagedCertificateId ?prev)))
          = (201, ''201 Created'', Some [], None)
      \<and> parseCertificateRequestResult ?w2 201 ''201 Created'' (bytes (Some [])) = Inr ?ack"
    by code_simp
  have e: "(case CertificateRequests ?ack of
              [] \<Rightarrow> Inl PanicIndexOutOfRange | r # rs \<Rightarrow> Inr (ID r)) = Inl PanicIndexOutOfRange"
    by simp
  show ?thesis
    using first_request_id[THEN conjunct1, THEN mp, OF h1]
          first_request_id[THEN conjunct2, THEN mp, OF h2]
    unfolding e by (rule conjI)
qed

end
